theory Spec2Isabelle
  imports Complex_Main
begin

section \<open>Time utilities\<close>

text \<open>
  The source keeps every instant as a string \<^verbatim>\<open>yyyy-MM-dd HH:mm:ss\<close> and reads it with
  date-fns. A well-formed string of that shape is one wall-clock second, so a timestamp is
  modelled by the number of seconds between 1970-01-01 00:00:00 (a Thursday) and that
  wall-clock second. The encoding is one-to-one with the well-formed strings: the calendar
  date is the quotient by 86400 and the time of day is the remainder. The clock is taken to
  have a fixed offset (a day always has 86400 seconds); malformed strings are outside the
  model.
\<close>

type_synonym timestamp = int

text \<open>Day number \<open>d\<close> (days after 1970-01-01), hour, minute, second.\<close>

definition mkTime :: "int \<Rightarrow> int \<Rightarrow> int \<Rightarrow> int \<Rightarrow> timestamp" where
  "mkTime d h m s = d * 86400 + h * 3600 + m * 60 + s"

text \<open>\<^verbatim>\<open>record['Fecha/Hora'].split(' ')[0]\<close>: the calendar date, used as a key.\<close>

definition dateOf :: "timestamp \<Rightarrow> int" where
  "dateOf t = t div 86400"

text \<open>\<^verbatim>\<open>parse(date, 'yyyy-MM-dd', new Date())\<close>: midnight at the start of that date.\<close>

definition parseDate :: "int \<Rightarrow> timestamp" where
  "parseDate d = d * 86400"

text \<open>\<^verbatim>\<open>Date.getDay()\<close>: 0 is Sunday, 6 is Saturday; day number 0 is a Thursday.\<close>

definition getDay :: "timestamp \<Rightarrow> int" where
  "getDay t = (t div 86400 + 4) mod 7"

definition getHours :: "timestamp \<Rightarrow> int" where
  "getHours t = (t mod 86400) div 3600"

definition getMinutes :: "timestamp \<Rightarrow> int" where
  "getMinutes t = (t mod 3600) div 60"

definition isWeekend :: "timestamp \<Rightarrow> bool" where
  "isWeekend t = (getDay t = 0 \<or> getDay t = 6)"

text \<open>
  \<^verbatim>\<open>isWithinInterval(date, {start, end})\<close>, both ends included. The library sorts the
  two ends before it compares (date-fns 3 and later), so an interval given with its start
  after its end is read the other way round. (Version 2 of the library raised a RangeError
  for such an interval; the callers in the application build the range from the first and
  last day of a fortnight, where the two versions agree.)
\<close>

definition isWithinInterval :: "timestamp \<Rightarrow> timestamp \<Rightarrow> timestamp \<Rightarrow> bool" where
  "isWithinInterval t start end = (min start end \<le> t \<and> t \<le> max start end)"

section \<open>Binary floating point\<close>

text \<open>
  The hours of the source are JavaScript numbers, that is IEEE 754 binary64 values. A finite
  value is modelled by the rational it denotes, and an arithmetic operation of the source
  by the exact operation followed by \<open>toDouble\<close>, the rounding to the nearest value with
  a 53-bit significand, a tie going to the even significand. Overflow and subnormal values
  are not modelled: the hours of an analysis are far from both.
\<close>

text \<open>The number of binary digits of a natural number.\<close>

fun bitLength :: "nat \<Rightarrow> nat" where
  "bitLength n = (if n = 0 then 0 else Suc (bitLength (n div 2)))"

declare bitLength.simps [simp del]

text \<open>For \<open>x > 0\<close>, the exponent \<open>e\<close> with \<open>2 ^ e \<le> x < 2 ^ (e + 1)\<close>.\<close>

definition floorLog2 :: "rat \<Rightarrow> int" where
  "floorLog2 x =
     (if 1 \<le> x then int (bitLength (nat \<lfloor>x\<rfloor>)) - 1
      else - int (bitLength (nat (\<lceil>1 / x\<rceil> - 1))))"

definition pow2 :: "int \<Rightarrow> rat" where
  "pow2 k = (if 0 \<le> k then 2 ^ nat k else 1 / 2 ^ nat (- k))"

definition roundHalfEven :: "rat \<Rightarrow> int" where
  "roundHalfEven q =
     (let n = \<lfloor>q\<rfloor>; f = q - of_int n
      in if f < 1 / 2 then n
         else if f > 1 / 2 then n + 1
         else if even n then n else n + 1)"

definition toDouble :: "rat \<Rightarrow> rat" where
  "toDouble x =
     (if x = 0 then 0
      else let u = pow2 (floorLog2 \<bar>x\<bar> - 52)
           in of_int (roundHalfEven (x / u)) * u)"

text \<open>\<^verbatim>\<open>differenceInMinutes(left, right)\<close>: whole minutes, truncated towards zero.\<close>

definition differenceInMinutes :: "timestamp \<Rightarrow> timestamp \<Rightarrow> int" where
  "differenceInMinutes left right =
     (let d = left - right in if 0 \<le> d then d div 60 else - ((- d) div 60))"

section \<open>Data model (types.ts)\<close>

datatype RecordType = In | Out | Break

text \<open>
  The columns the analysis reads. The other columns of a row (department, user ids,
  device, ...) are carried along and never inspected.
\<close>

record AttendanceRecord =
  Nombre :: string
  FechaHora :: timestamp
  TipoDeRegistro :: RecordType
  Operacion :: "string option"

text \<open>
  A Schedule is a JavaScript object, and the source compares schedules with \<^verbatim>\<open>===\<close>
  (object identity). The field \<open>oid\<close> is the identity of the object; the other four
  fields are its contents, in minutes from midnight.
\<close>

record Schedule =
  oid :: nat
  startTime :: int
  endTime :: int
  lunchStart :: int
  lunchEnd :: int

record Thresholds =
  fullHour :: int
  halfHour :: int

record PreferencesConfig =
  regularSchedule :: Schedule
  earlySchedule :: Schedule
  duplicateThresholdMinutes :: int
  lunchDuration :: int
  overtimeThresholds :: Thresholds
  lateThresholds :: Thresholds
  showAllDays :: bool

definition DEFAULT_PREFERENCES :: PreferencesConfig where
  "DEFAULT_PREFERENCES =
     \<lparr> regularSchedule =
         \<lparr> oid = 0, startTime = 8 * 60, endTime = 17 * 60,
           lunchStart = 12 * 60, lunchEnd = 13 * 60 \<rparr>,
       earlySchedule =
         \<lparr> oid = 1, startTime = 7 * 60, endTime = 16 * 60,
           lunchStart = 12 * 60, lunchEnd = 13 * 60 \<rparr>,
       duplicateThresholdMinutes = 5,
       lunchDuration = 60,
       overtimeThresholds = \<lparr> fullHour = 55, halfHour = 25 \<rparr>,
       lateThresholds = \<lparr> fullHour = 35, halfHour = 5 \<rparr>,
       showAllDays = True \<rparr>"

section \<open>Duplicate filter\<close>

text \<open>
  The test of \<^verbatim>\<open>filterDuplicateRecords\<close> that decides whether \<open>current\<close> is pushed
  after \<open>prevRecord\<close>, the last element of the accumulator.
\<close>

definition isNewRecord ::
  "PreferencesConfig \<Rightarrow> AttendanceRecord \<Rightarrow> AttendanceRecord \<Rightarrow> bool" where
  "isNewRecord preferences prevRecord current =
     (differenceInMinutes (FechaHora current) (FechaHora prevRecord)
        > duplicateThresholdMinutes preferences
      \<or> TipoDeRegistro current \<noteq> TipoDeRegistro prevRecord
      \<or> Operacion current \<noteq> Operacion prevRecord)"

text \<open>The body of the \<^verbatim>\<open>reduce\<close> callback for an index other than 0.\<close>

definition dedupStep ::
  "PreferencesConfig \<Rightarrow> AttendanceRecord list \<Rightarrow> AttendanceRecord \<Rightarrow> AttendanceRecord list" where
  "dedupStep preferences acc current =
     (if isNewRecord preferences (last acc) current then acc @ [current] else acc)"

text \<open>
  The sort is the stable sort of \<^verbatim>\<open>Array.prototype.sort\<close> on the timestamps; at index 0
  the callback returns \<^verbatim>\<open>[current]\<close>, and every later index runs \<open>dedupStep\<close>.
\<close>

definition filterDuplicateRecords ::
  "AttendanceRecord list \<Rightarrow> PreferencesConfig \<Rightarrow> AttendanceRecord list" where
  "filterDuplicateRecords records preferences =
     (case sort_key FechaHora records of
        [] \<Rightarrow> []
      | current # rest \<Rightarrow> foldl (dedupStep preferences) [current] rest)"

text \<open>
  The same \<^verbatim>\<open>reduce\<close> written as a recursion over the sorted list, with the last kept
  record as a parameter: the head of the sorted list is kept, and \<open>keepAfter\<close> runs
  the test of the source on each later record. It is the form the proofs work with.
\<close>

fun keepAfter ::
  "PreferencesConfig \<Rightarrow> AttendanceRecord \<Rightarrow> AttendanceRecord list \<Rightarrow> AttendanceRecord list" where
  "keepAfter preferences lastKept [] = []"
| "keepAfter preferences lastKept (r # rs) =
     (if differenceInMinutes (FechaHora r) (FechaHora lastKept)
           > duplicateThresholdMinutes preferences
         \<or> TipoDeRegistro r \<noteq> TipoDeRegistro lastKept
         \<or> Operacion r \<noteq> Operacion lastKept
      then r # keepAfter preferences r rs
      else keepAfter preferences lastKept rs)"

definition duplicateFilterSpec ::
  "PreferencesConfig \<Rightarrow> AttendanceRecord list \<Rightarrow> AttendanceRecord list" where
  "duplicateFilterSpec preferences records =
     (case sort_key FechaHora records of
        [] \<Rightarrow> []
      | first # rest \<Rightarrow> first # keepAfter preferences first rest)"

section \<open>Schedule classifier\<close>

text \<open>Minute of the day of the weekday punches of kind \<^verbatim>\<open>In\<close>, respectively \<^verbatim>\<open>Out\<close>.\<close>

definition entryTimes :: "AttendanceRecord list \<Rightarrow> int list" where
  "entryTimes records =
     map (\<lambda>record. getHours (FechaHora record) * 60 + getMinutes (FechaHora record))
       (filter (\<lambda>record. \<not> isWeekend (FechaHora record) \<and> TipoDeRegistro record = In) records)"

definition departureTimes :: "AttendanceRecord list \<Rightarrow> int list" where
  "departureTimes records =
     map (\<lambda>record. getHours (FechaHora record) * 60 + getMinutes (FechaHora record))
       (filter (\<lambda>record. \<not> isWeekend (FechaHora record) \<and> TipoDeRegistro record = Out) records)"

text \<open>
  \<^verbatim>\<open>times.reduce((sum, time) => sum + time, 0) / times.length\<close>. On the empty list this
  is \<^verbatim>\<open>0 / 0\<close>, the number NaN, which is the value \<open>None\<close> here. The quotient is taken
  in the rationals.
\<close>

definition average :: "int list \<Rightarrow> rat option" where
  "average ts =
     (if length ts = 0 then None
      else Some (of_int (foldl (+) 0 ts) / of_int (int (length ts))))"

text \<open>
  \<^verbatim>\<open>Math.abs(avg - a) < Math.abs(avg - b)\<close>; a comparison with NaN on either side is
  false.
\<close>

definition closerTo :: "rat option \<Rightarrow> int \<Rightarrow> int \<Rightarrow> bool" where
  "closerTo avg a b =
     (case avg of
        None \<Rightarrow> False
      | Some v \<Rightarrow> \<bar>v - of_int a\<bar> < \<bar>v - of_int b\<bar>)"

definition detectSchedule :: "AttendanceRecord list \<Rightarrow> PreferencesConfig \<Rightarrow> Schedule" where
  "detectSchedule records preferences =
     (let avgEntryTime = average (entryTimes records);
          avgDepartureTime = average (departureTimes records);
          isEarlySchedule =
            (closerTo avgEntryTime (startTime (earlySchedule preferences))
               (startTime (regularSchedule preferences))
             \<and> closerTo avgDepartureTime (endTime (earlySchedule preferences))
               (endTime (regularSchedule preferences)))
      in if isEarlySchedule then earlySchedule preferences else regularSchedule preferences)"

section \<open>Grouping\<close>

text \<open>
  \<^verbatim>\<open>if (!acc[key]) acc[key] = []; acc[key].push(record)\<close> on an object: an association
  list in the order in which the keys were created. Keys are dates or employee names (a
  name that is also a member of \<^verbatim>\<open>Object.prototype\<close> is outside the model).
\<close>

fun pushTo :: "'k \<Rightarrow> 'v \<Rightarrow> ('k \<times> 'v list) list \<Rightarrow> ('k \<times> 'v list) list" where
  "pushTo k v [] = [(k, [v])]"
| "pushTo k v ((k', vs) # acc) =
     (if k' = k then (k', vs @ [v]) # acc else (k', vs) # pushTo k v acc)"

definition groupByDay :: "AttendanceRecord list \<Rightarrow> (int \<times> AttendanceRecord list) list" where
  "groupByDay records =
     foldl (\<lambda>acc record. pushTo (dateOf (FechaHora record)) record acc) [] records"

definition groupByName :: "AttendanceRecord list \<Rightarrow> (string \<times> AttendanceRecord list) list" where
  "groupByName records = foldl (\<lambda>acc record. pushTo (Nombre record) record acc) [] records"

text \<open>
  \<^verbatim>\<open>Object.entries\<close> lists the keys that are array indices first, in ascending numeric
  order, and the other keys after them in insertion order. An array index is a decimal
  numeral without a leading zero whose value is below \<open>2^32 - 1\<close>. (The date keys of
  \<open>groupByDay\<close> contain hyphens and are never array indices.)
\<close>

definition digitOf :: "char \<Rightarrow> nat option" where
  "digitOf c = map_of (zip ''0123456789'' [0..<10]) c"

fun decimalValue :: "nat \<Rightarrow> string \<Rightarrow> nat option" where
  "decimalValue acc [] = Some acc"
| "decimalValue acc (c # cs) =
     (case digitOf c of None \<Rightarrow> None | Some d \<Rightarrow> decimalValue (acc * 10 + d) cs)"

definition arrayIndex :: "string \<Rightarrow> nat option" where
  "arrayIndex key =
     (if key = [] \<or> (hd key = CHR ''0'' \<and> tl key \<noteq> []) then None
      else case decimalValue 0 key of
             None \<Rightarrow> None
           | Some n \<Rightarrow> if n < 4294967295 then Some n else None)"

definition objectEntries :: "(string \<times> 'v) list \<Rightarrow> (string \<times> 'v) list" where
  "objectEntries entries =
     sort_key (\<lambda>entry. case arrayIndex (fst entry) of Some n \<Rightarrow> n | None \<Rightarrow> 0)
       (filter (\<lambda>entry. arrayIndex (fst entry) \<noteq> None) entries)
     @ filter (\<lambda>entry. arrayIndex (fst entry) = None) entries"

text \<open>A \<^verbatim>\<open>Set\<close> in insertion order: a list without repetitions.\<close>

definition setAdd :: "'a \<Rightarrow> 'a list \<Rightarrow> 'a list" where
  "setAdd x xs = (if x \<in> set xs then xs else xs @ [x])"

section \<open>Daily evaluator\<close>

record DayResult =
  lateMinutes :: int
  overtimeHours :: rat
  lateHours :: rat

text \<open>The local variables of \<^verbatim>\<open>analyzeDayRecords\<close> that outlive one block.\<close>

record DayState = DayResult +
  totalWorkedMinutes :: int
  earlyArrivalOvertime :: rat

text \<open>
  The tier test on \<^verbatim>\<open>minutesLate\<close>, which the source writes out three times with the
  same text (regular arrival, early-schedule arrival, lunch break).
\<close>

definition lateCredit :: "PreferencesConfig \<Rightarrow> int \<Rightarrow> rat" where
  "lateCredit preferences minutesLate =
     (if minutesLate > halfHour (lateThresholds preferences)
         \<and> minutesLate \<le> fullHour (lateThresholds preferences) then 1 / 2
      else if minutesLate > fullHour (lateThresholds preferences) then 1
      else 0)"

definition addLate :: "PreferencesConfig \<Rightarrow> int \<Rightarrow> DayState \<Rightarrow> DayState" where
  "addLate preferences minutesLate st =
     st\<lparr> lateMinutes := lateMinutes st + minutesLate,
         lateHours := lateHours st + lateCredit preferences minutesLate \<rparr>"

text \<open>
  \<^verbatim>\<open>records.find(r => r['Tipo de registro'] === 'Break' && r.Operacion === op)\<close>;
  \<open>None\<close> is \<^verbatim>\<open>undefined\<close>.
\<close>

definition findBreak :: "string \<Rightarrow> AttendanceRecord list \<Rightarrow> AttendanceRecord option" where
  "findBreak op records =
     find (\<lambda>r. TipoDeRegistro r = Break \<and> Operacion r = Some op) records"

definition minuteOfDay :: "timestamp \<Rightarrow> int" where
  "minuteOfDay t = getHours t * 60 + getMinutes t"

text \<open>The block under \<^verbatim>\<open>// Check morning arrival\<close>.\<close>

definition checkMorningArrival ::
  "AttendanceRecord list \<Rightarrow> Schedule \<Rightarrow> PreferencesConfig \<Rightarrow> DayState \<Rightarrow> DayState" where
  "checkMorningArrival filteredRecords schedule preferences st =
     (if length filteredRecords > 0 then
        let firstRecord = FechaHora (hd filteredRecords);
            lastRecord = FechaHora (last filteredRecords);
            arrivalMinutes = minuteOfDay firstRecord;
            worked = differenceInMinutes lastRecord firstRecord;
            st1 = st\<lparr> totalWorkedMinutes :=
                    (case (findBreak ''Out'' filteredRecords, findBreak ''In'' filteredRecords) of
                       (Some breakOutRecord, Some breakInRecord) \<Rightarrow>
                         worked - differenceInMinutes (FechaHora breakInRecord)
                                    (FechaHora breakOutRecord)
                     | _ \<Rightarrow> worked) \<rparr>
        in if oid schedule = oid (regularSchedule preferences) then
             (if arrivalMinutes < startTime schedule then
                (if arrivalMinutes \<le> 7 * 60 + 5 then st1\<lparr> earlyArrivalOvertime := 1 \<rparr>
                 else if arrivalMinutes \<le> 7 * 60 + 30 then st1\<lparr> earlyArrivalOvertime := 1 / 2 \<rparr>
                 else st1)
              else if arrivalMinutes > startTime schedule then
                addLate preferences (arrivalMinutes - startTime schedule) st1
              else st1)
           else
             (if arrivalMinutes > startTime schedule then
                addLate preferences (arrivalMinutes - startTime schedule) st1
              else st1)
      else st)"

text \<open>The block under \<^verbatim>\<open>// Check evening departure\<close>.\<close>

definition checkEveningDeparture ::
  "AttendanceRecord list \<Rightarrow> Schedule \<Rightarrow> PreferencesConfig \<Rightarrow> DayState \<Rightarrow> DayState" where
  "checkEveningDeparture filteredRecords schedule preferences st =
     (if length filteredRecords > 0 \<and> totalWorkedMinutes st \<ge> 480 then
        let st1 = (if earlyArrivalOvertime st > 0
                   then st\<lparr> overtimeHours := overtimeHours st + earlyArrivalOvertime st \<rparr>
                   else st);
            departureMinutes = minuteOfDay (FechaHora (last filteredRecords))
        in if departureMinutes \<ge> endTime schedule then
             (if departureMinutes \<ge> endTime schedule + fullHour (overtimeThresholds preferences)
              then st1\<lparr> overtimeHours := overtimeHours st1 + 1 \<rparr>
              else if departureMinutes
                        \<ge> endTime schedule + halfHour (overtimeThresholds preferences)
              then st1\<lparr> overtimeHours := overtimeHours st1 + 1 / 2 \<rparr>
              else st1)
           else st1
      else st)"

text \<open>The block under \<^verbatim>\<open>// Check lunch break\<close>.\<close>

definition checkLunchBreak ::
  "AttendanceRecord list \<Rightarrow> PreferencesConfig \<Rightarrow> DayState \<Rightarrow> DayState" where
  "checkLunchBreak filteredRecords preferences st =
     (case (findBreak ''Out'' filteredRecords, findBreak ''In'' filteredRecords) of
        (Some breakOutRecord, Some breakInRecord) \<Rightarrow>
          (let breakDuration =
                 differenceInMinutes (FechaHora breakInRecord) (FechaHora breakOutRecord)
           in if breakDuration > lunchDuration preferences
              then addLate preferences (breakDuration - lunchDuration preferences) st
              else st)
      | _ \<Rightarrow> st)"

definition analyzeDayRecords ::
  "AttendanceRecord list \<Rightarrow> Schedule \<Rightarrow> PreferencesConfig \<Rightarrow> DayResult" where
  "analyzeDayRecords records schedule preferences =
     (let filteredRecords = filterDuplicateRecords records preferences
      in if length filteredRecords > 0 \<and> getDay (FechaHora (hd filteredRecords)) = 6
         then \<lparr> lateMinutes = 0, overtimeHours = 0, lateHours = 0 \<rparr>
         else
           let st0 = \<lparr> lateMinutes = 0, overtimeHours = 0, lateHours = 0,
                       totalWorkedMinutes = 0, earlyArrivalOvertime = 0 \<rparr>;
               st1 = checkMorningArrival filteredRecords schedule preferences st0;
               st2 = checkEveningDeparture filteredRecords schedule preferences st1;
               st3 = checkLunchBreak filteredRecords preferences st2
           in \<lparr> lateMinutes = lateMinutes st3, overtimeHours = overtimeHours st3,
                lateHours = lateHours st3 \<rparr>)"

section \<open>Period aggregator\<close>

definition getCompanyWorkdays ::
  "AttendanceRecord list \<Rightarrow> timestamp \<Rightarrow> timestamp \<Rightarrow> int list" where
  "getCompanyWorkdays allRecords startDate endDate =
     foldl (\<lambda>workdays record.
              let date = dateOf (FechaHora record);
                  recordDate = parseDate date
              in if \<not> isWeekend recordDate \<and> isWithinInterval recordDate startDate endDate
                 then setAdd date workdays else workdays)
       [] allRecords"

text \<open>The six counters of one employee, apart from the absences.\<close>

record Totals =
  totalLateDays :: nat
  totalLateMinutes :: int
  totalLateHours :: rat
  totalOvertimeHours :: rat
  totalSaturdayHours :: rat

definition zeroTotals :: Totals where
  "zeroTotals =
     \<lparr> totalLateDays = 0, totalLateMinutes = 0, totalLateHours = 0,
       totalOvertimeHours = 0, totalSaturdayHours = 0 \<rparr>"

text \<open>
  The callback of \<^verbatim>\<open>Object.entries(dailyRecords).forEach\<close>. The quotient by 60 and
  the three running sums of hours are floating-point operations. (The minutes are integers,
  and the hours of one day are among 0, 0.5, 1, 1.5 and 2, which the floating-point
  operations of the daily evaluator give exactly.)
\<close>

definition dayStep ::
  "timestamp \<Rightarrow> timestamp \<Rightarrow> Schedule \<Rightarrow> PreferencesConfig \<Rightarrow> Totals \<Rightarrow>
     int \<times> AttendanceRecord list \<Rightarrow> Totals" where
  "dayStep startDate endDate schedule preferences tot entry =
     (let date = fst entry; dayRecords = snd entry; dateObj = parseDate date
      in if \<not> isWithinInterval dateObj startDate endDate then tot
         else if isWeekend dateObj then
           (if length dayRecords \<ge> 2 then
              let firstRecord = FechaHora (hd dayRecords);
                  lastRecord = FechaHora (last dayRecords);
                  hours = toDouble (of_int (differenceInMinutes lastRecord firstRecord) / 60)
              in tot\<lparr> totalSaturdayHours := toDouble (totalSaturdayHours tot + hours) \<rparr>
            else tot)
         else
           let res = analyzeDayRecords dayRecords schedule preferences;
               tot1 = (if lateMinutes res > 0
                       then tot\<lparr> totalLateDays := totalLateDays tot + 1,
                                 totalLateMinutes := totalLateMinutes tot + lateMinutes res,
                                 totalLateHours :=
                                   toDouble (totalLateHours tot + lateHours res) \<rparr>
                       else tot)
           in tot1\<lparr> totalOvertimeHours :=
                     toDouble (totalOvertimeHours tot1 + overtimeHours res) \<rparr>)"

definition userWorkdaysOf ::
  "(int \<times> AttendanceRecord list) list \<Rightarrow> timestamp \<Rightarrow> timestamp \<Rightarrow> int list" where
  "userWorkdaysOf dailyRecords startDate endDate =
     foldl (\<lambda>userWorkdays date.
              let dateObj = parseDate date
              in if \<not> isWeekend dateObj \<and> isWithinInterval dateObj startDate endDate
                 then setAdd date userWorkdays else userWorkdays)
       [] (map fst dailyRecords)"

definition countAbsences :: "int list \<Rightarrow> int list \<Rightarrow> nat" where
  "countAbsences companyWorkdays userWorkdays =
     foldl (\<lambda>totalAbsences date.
              if date \<notin> set userWorkdays then totalAbsences + 1 else totalAbsences)
       0 companyWorkdays"

text \<open>
  \<^verbatim>\<open>Math.round(x * 2) / 2\<close>. \<^verbatim>\<open>Math.round\<close> gives the nearest integer, a tie going
  up. Doubling a binary floating-point value, rounding it to an integer and halving that
  integer are exact operations, so no rounding to \<open>toDouble\<close> stands here.
\<close>

definition mathRound :: "rat \<Rightarrow> int" where
  "mathRound x = \<lfloor>x + 1 / 2\<rfloor>"

definition roundToHalf :: "rat \<Rightarrow> rat" where
  "roundToHalf x = of_int (mathRound (x * 2)) / 2"

record AnalysisResult =
  name :: string
  schedule :: Schedule
  daysRegistered :: nat
  absences :: nat
  periodLateHours :: rat
  lateDays :: nat
  periodLateMinutes :: int
  periodOvertimeHours :: rat
  saturdayHours :: rat
  totalHours :: rat
  dailyRecords :: "(int \<times> AttendanceRecord list) list"

text \<open>The totals after the loop over the daily buckets of one employee.\<close>

definition employeeTotals ::
  "AttendanceRecord list \<Rightarrow> timestamp \<Rightarrow> timestamp \<Rightarrow> PreferencesConfig \<Rightarrow> Totals" where
  "employeeTotals userRecords startDate endDate preferences =
     (let filteredRecords = filterDuplicateRecords userRecords preferences
      in foldl (dayStep startDate endDate (detectSchedule filteredRecords preferences) preferences)
           zeroTotals (groupByDay filteredRecords))"

text \<open>The callback of \<^verbatim>\<open>Object.entries(userRecords).map\<close>.\<close>

definition analyzeEmployee ::
  "int list \<Rightarrow> timestamp \<Rightarrow> timestamp \<Rightarrow> PreferencesConfig \<Rightarrow>
     string \<times> AttendanceRecord list \<Rightarrow> AnalysisResult" where
  "analyzeEmployee companyWorkdays startDate endDate preferences entry =
     (let userName = fst entry; userRecords = snd entry;
          filteredRecords = filterDuplicateRecords userRecords preferences;
          tot = employeeTotals userRecords startDate endDate preferences;
          roundedOvertimeHours = roundToHalf (totalOvertimeHours tot);
          roundedSaturdayHours = roundToHalf (totalSaturdayHours tot)
      in \<lparr> name = userName,
           schedule = detectSchedule filteredRecords preferences,
           daysRegistered =
             length (filter (\<lambda>date. isWithinInterval (parseDate date) startDate endDate)
                       (map fst (groupByDay filteredRecords))),
           absences =
             countAbsences companyWorkdays
               (userWorkdaysOf (groupByDay filteredRecords) startDate endDate),
           periodLateHours = totalLateHours tot,
           lateDays = totalLateDays tot,
           periodLateMinutes = totalLateMinutes tot,
           periodOvertimeHours = roundedOvertimeHours,
           saturdayHours = roundedSaturdayHours,
           totalHours = toDouble (roundedOvertimeHours + roundedSaturdayHours),
           dailyRecords = groupByDay filteredRecords \<rparr>)"

definition analyzeAttendance ::
  "AttendanceRecord list \<Rightarrow> timestamp \<Rightarrow> timestamp \<Rightarrow> PreferencesConfig \<Rightarrow>
     AnalysisResult list" where
  "analyzeAttendance records startDate endDate preferences =
     map (analyzeEmployee (getCompanyWorkdays records startDate endDate)
            startDate endDate preferences)
       (objectEntries (groupByName records))"

section \<open>The quantities of the daily evaluator\<close>

text \<open>
  The values that \<^verbatim>\<open>analyzeDayRecords\<close> computes on its way, each under the name the
  specification has for it, and taken as the source takes them: minutes of the day from
  \<^verbatim>\<open>getHours\<close> and \<^verbatim>\<open>getMinutes\<close>, the break from the first Break-Out and the first
  Break-In record that \<^verbatim>\<open>find\<close> returns, differences in the whole minutes of
  \<^verbatim>\<open>differenceInMinutes\<close>. With them the evaluator has a closed form.
\<close>

text \<open>Minute of the day of the first and of the last punch of a filtered day.\<close>

definition arrivalOf :: "AttendanceRecord list \<Rightarrow> int" where
  "arrivalOf filtered = minuteOfDay (FechaHora (hd filtered))"

definition departureOf :: "AttendanceRecord list \<Rightarrow> int" where
  "departureOf filtered = minuteOfDay (FechaHora (last filtered))"

text \<open>The break of a day: the minutes from the first Break-Out record to the first Break-In
  record, when both exist.\<close>

definition breakDuration :: "AttendanceRecord list \<Rightarrow> int option" where
  "breakDuration filtered =
     (case findBreak ''Out'' filtered of
        None \<Rightarrow> None
      | Some breakOut \<Rightarrow>
          (case findBreak ''In'' filtered of
             None \<Rightarrow> None
           | Some breakIn \<Rightarrow>
               Some (differenceInMinutes (FechaHora breakIn) (FechaHora breakOut))))"

text \<open>Total worked minutes: last punch minus first punch, minus the break when there is one.\<close>

definition workedMinutes :: "AttendanceRecord list \<Rightarrow> int" where
  "workedMinutes filtered =
     differenceInMinutes (FechaHora (last filtered)) (FechaHora (hd filtered))
       - (case breakDuration filtered of None \<Rightarrow> 0 | Some d \<Rightarrow> d)"

text \<open>The minutes by which the break exceeds the configured lunch duration (0 without a
  break pair or without an excess).\<close>

definition lunchOverrun :: "PreferencesConfig \<Rightarrow> AttendanceRecord list \<Rightarrow> int" where
  "lunchOverrun preferences filtered =
     (case breakDuration filtered of
        None \<Rightarrow> 0
      | Some d \<Rightarrow> if d > lunchDuration preferences then d - lunchDuration preferences else 0)"

text \<open>Minutes of arrival after the scheduled start (0 when on time, early, or without punches).\<close>

definition arrivalLateness :: "Schedule \<Rightarrow> AttendanceRecord list \<Rightarrow> int" where
  "arrivalLateness sched filtered =
     (if filtered \<noteq> [] \<and> arrivalOf filtered > startTime sched
      then arrivalOf filtered - startTime sched else 0)"

text \<open>The late-threshold tiers: 0.5 if \<open>halfHour < excess \<le> fullHour\<close>, 1 if
  \<open>excess > fullHour\<close>, else 0; nothing for no excess.\<close>

definition tierOf :: "PreferencesConfig \<Rightarrow> int \<Rightarrow> rat" where
  "tierOf preferences excess =
     (if excess \<le> 0 then 0
      else if halfHour (lateThresholds preferences) < excess
              \<and> excess \<le> fullHour (lateThresholds preferences) then 1 / 2
      else if excess > fullHour (lateThresholds preferences) then 1
      else 0)"

text \<open>The early-arrival credit: only on the regular schedule and before the scheduled start;
  1 up to 07:05, 0.5 up to 07:30, else 0.\<close>

definition earlyArrivalCredit :: "Schedule \<Rightarrow> PreferencesConfig \<Rightarrow> int \<Rightarrow> rat" where
  "earlyArrivalCredit sched preferences arrival =
     (if oid sched = oid (regularSchedule preferences) \<and> arrival < startTime sched
      then (if arrival \<le> 7 * 60 + 5 then 1 else if arrival \<le> 7 * 60 + 30 then 1 / 2 else 0)
      else 0)"

text \<open>The overtime tiers after the scheduled end: 1 from \<open>endTime + fullHour\<close>, 0.5 from
  \<open>endTime + halfHour\<close>, else 0.\<close>

definition eveningCredit :: "Schedule \<Rightarrow> PreferencesConfig \<Rightarrow> int \<Rightarrow> rat" where
  "eveningCredit sched preferences departure =
     (if departure < endTime sched then 0
      else if departure \<ge> endTime sched + fullHour (overtimeThresholds preferences) then 1
      else if departure \<ge> endTime sched + halfHour (overtimeThresholds preferences) then 1 / 2
      else 0)"

text \<open>The lateness and overtime counters of an employee: late days, late minutes, late hours,
  overtime hours.\<close>

definition lateTotals :: "Totals \<Rightarrow> nat \<times> int \<times> rat \<times> rat" where
  "lateTotals tot =
     (totalLateDays tot, totalLateMinutes tot, totalLateHours tot, totalOvertimeHours tot)"

text \<open>A daily bucket whose date is a Saturday.\<close>

definition isSaturdayBucket :: "int \<times> AttendanceRecord list \<Rightarrow> bool" where
  "isSaturdayBucket entry = (getDay (parseDate (fst entry)) = 6)"

text \<open>The same punch \<open>n\<close> days later, at the same time of day.\<close>

definition shiftDays :: "int \<Rightarrow> AttendanceRecord \<Rightarrow> AttendanceRecord" where
  "shiftDays n r = r\<lparr> FechaHora := FechaHora r + n * 86400 \<rparr>"

section \<open>The specification's words\<close>

text \<open>
  The definitions of this section are written from the specification and the claims, and
  use none of the functions translated from the source: the source functions are compared
  with them.
\<close>

text \<open>A span of seconds in whole minutes: the seconds beyond the last full minute are dropped.\<close>

definition wholeMinutes :: "int \<Rightarrow> int" where
  "wholeMinutes secs = (if 0 \<le> secs then secs div 60 else - ((- secs) div 60))"

text \<open>The minute of the day of an instant, ignoring its seconds.\<close>

definition clockMinute :: "timestamp \<Rightarrow> int" where
  "clockMinute t = (t mod 86400) div 60"

text \<open>The instant of the first Break record with the given operation tag, if there is one.\<close>

fun firstBreakTime :: "string \<Rightarrow> AttendanceRecord list \<Rightarrow> timestamp option" where
  "firstBreakTime tag [] = None"
| "firstBreakTime tag (r # rs) =
     (if TipoDeRegistro r = Break \<and> Operacion r = Some tag then Some (FechaHora r)
      else firstBreakTime tag rs)"

text \<open>
  The duplicate filter of the specification, for a given reading \<open>apart\<close> of "the record
  is more than the duplicate window after the last kept one": after sorting, the first
  record is kept; each later record is kept when it is \<open>apart\<close> from the last kept
  record, or its punch kind differs from it, or its operation tag differs.
\<close>

fun keepApart ::
  "(timestamp \<Rightarrow> timestamp \<Rightarrow> bool) \<Rightarrow> AttendanceRecord \<Rightarrow> AttendanceRecord list \<Rightarrow>
     AttendanceRecord list" where
  "keepApart apart lastKept [] = []"
| "keepApart apart lastKept (r # rs) =
     (if apart (FechaHora lastKept) (FechaHora r)
         \<or> TipoDeRegistro r \<noteq> TipoDeRegistro lastKept
         \<or> Operacion r \<noteq> Operacion lastKept
      then r # keepApart apart r rs
      else keepApart apart lastKept rs)"

definition filterKeeping ::
  "(timestamp \<Rightarrow> timestamp \<Rightarrow> bool) \<Rightarrow> AttendanceRecord list \<Rightarrow> AttendanceRecord list" where
  "filterKeeping apart records =
     (case sort_key FechaHora records of
        [] \<Rightarrow> []
      | first # rest \<Rightarrow> first # keepApart apart first rest)"

text \<open>The reading of the claim as it is written: the two instants differ by more than the window.\<close>

definition moreThanMinutes :: "int \<Rightarrow> timestamp \<Rightarrow> timestamp \<Rightarrow> bool" where
  "moreThanMinutes window earlier later = (later - earlier > window * 60)"

text \<open>The reading that holds: the whole minutes between the two instants exceed the window.\<close>

definition moreThanWholeMinutes :: "int \<Rightarrow> timestamp \<Rightarrow> timestamp \<Rightarrow> bool" where
  "moreThanWholeMinutes window earlier later = (wholeMinutes (later - earlier) > window)"



text \<open>
  The break records of a day are in order when the first Break-In record is not earlier
  than the first Break-Out record (days without one of the two are in order).
\<close>

definition breakTagsInOrder :: "AttendanceRecord list \<Rightarrow> bool" where
  "breakTagsInOrder rs =
     (case firstBreakTime ''Out'' rs of
        None \<Rightarrow> True
      | Some tOut \<Rightarrow>
          (case firstBreakTime ''In'' rs of None \<Rightarrow> True | Some tIn \<Rightarrow> tOut \<le> tIn))"

text \<open>
  The first break of a day: from the first Break-Out record to the first Break-In record,
  when the Break-In is not the earlier of the two; no such break counts as 0.
\<close>

definition firstBreakSeconds :: "AttendanceRecord list \<Rightarrow> int" where
  "firstBreakSeconds rs =
     (case firstBreakTime ''Out'' rs of
        None \<Rightarrow> 0
      | Some tOut \<Rightarrow>
          (case firstBreakTime ''In'' rs of
             None \<Rightarrow> 0
           | Some tIn \<Rightarrow> if tOut \<le> tIn then tIn - tOut else 0))"

text \<open>
  Total worked minutes with the spans in whole minutes: from first to last punch, minus the
  first break.
\<close>

definition workedWholeMinutes :: "AttendanceRecord list \<Rightarrow> int" where
  "workedWholeMinutes rs =
     wholeMinutes (FechaHora (last rs) - FechaHora (hd rs))
       - wholeMinutes (firstBreakSeconds rs)"

text \<open>
  All matched breaks of a day: every Break-Out record is matched with the next Break-In
  record after it, and the spans of the pairs are added up. \<open>opened\<close> is the Break-Out
  that waits for its Break-In.
\<close>

fun breakSecondsFrom :: "timestamp option \<Rightarrow> AttendanceRecord list \<Rightarrow> int" where
  "breakSecondsFrom opened [] = 0"
| "breakSecondsFrom opened (r # rs) =
     (if TipoDeRegistro r = Break \<and> Operacion r = Some ''Out'' \<and> opened = None
      then breakSecondsFrom (Some (FechaHora r)) rs
      else if TipoDeRegistro r = Break \<and> Operacion r = Some ''In''
      then (case opened of
              None \<Rightarrow> breakSecondsFrom None rs
            | Some tOut \<Rightarrow> FechaHora r - tOut + breakSecondsFrom None rs)
      else breakSecondsFrom opened rs)"

text \<open>
  Total worked time as the claim words it, measured exactly: last punch minus first punch,
  minus any matched break, in seconds.
\<close>

definition workedSeconds :: "AttendanceRecord list \<Rightarrow> int" where
  "workedSeconds rs =
     FechaHora (last rs) - FechaHora (hd rs) - breakSecondsFrom None rs"

text \<open>
  The minutes of the day of the punches of one kind that fall on a weekday (Monday to
  Friday), in the order of the list.
\<close>

fun weekdayMinutes :: "RecordType \<Rightarrow> AttendanceRecord list \<Rightarrow> int list" where
  "weekdayMinutes kind [] = []"
| "weekdayMinutes kind (r # rs) =
     (if TipoDeRegistro r = kind \<and> 1 \<le> getDay (FechaHora r) \<and> getDay (FechaHora r) \<le> 5
      then clockMinute (FechaHora r) # weekdayMinutes kind rs
      else weekdayMinutes kind rs)"

text \<open>The arithmetic mean of a non-empty list of minutes.\<close>

definition meanOf :: "int list \<Rightarrow> rat" where
  "meanOf xs = of_int (sum_list xs) / of_int (int (length xs))"

text \<open>The mean of \<open>xs\<close> exists and is strictly closer to \<open>a\<close> than to \<open>b\<close>.\<close>

definition closerMean :: "int list \<Rightarrow> int \<Rightarrow> int \<Rightarrow> bool" where
  "closerMean xs a b =
     (xs \<noteq> [] \<and> \<bar>meanOf xs - of_int a\<bar> < \<bar>meanOf xs - of_int b\<bar>)"

text \<open>
  The classification rule of the specification: the mean weekday entry time is closer to
  the early start than to the regular start, and the mean weekday exit time is closer to the
  early end than to the regular end.
\<close>

definition classifiedEarly :: "AttendanceRecord list \<Rightarrow> PreferencesConfig \<Rightarrow> bool" where
  "classifiedEarly records preferences =
     (closerMean (weekdayMinutes In records) (startTime (earlySchedule preferences))
        (startTime (regularSchedule preferences))
      \<and> closerMean (weekdayMinutes Out records) (endTime (earlySchedule preferences))
        (endTime (regularSchedule preferences)))"

section \<open>Concrete punch lists\<close>

text \<open>
  The inputs on which the statements are evaluated. Day 2 is Saturday 1970-01-03, day 3 the
  Sunday, day 4 the Monday and day 5 the Tuesday after it; the range of the aggregation is
  1970-01-01 to 1970-01-15, and to 1970-01-22 for the three Saturday shifts.
\<close>

text \<open>One row of the time clock: employee, instant, punch kind, operation tag.\<close>

definition punch ::
  "string \<Rightarrow> timestamp \<Rightarrow> RecordType \<Rightarrow> string option \<Rightarrow> AttendanceRecord" where
  "punch n t k op = \<lparr> Nombre = n, FechaHora = t, TipoDeRegistro = k, Operacion = op \<rparr>"

text \<open>Monday 1970-01-05: a single arrival at 08:00 plus \<open>m\<close> minutes.\<close>

definition arrivalAt :: "int \<Rightarrow> AttendanceRecord list" where
  "arrivalAt m = [punch ''Ana'' (mkTime 4 8 m 0) In None]"

text \<open>Monday: arrival at 08:05 and a break of 100 minutes.\<close>

definition lateLunchPunches :: "AttendanceRecord list" where
  "lateLunchPunches =
     [punch ''Ana'' (mkTime 4 8 5 0) In None,
      punch ''Ana'' (mkTime 4 12 0 0) Break (Some ''Out''),
      punch ''Ana'' (mkTime 4 13 40 0) Break (Some ''In'')]"

text \<open>Saturday 1970-01-03: arrival at 08:10, a break of 100 minutes, departure at 18:00.\<close>

definition saturdayPunches :: "AttendanceRecord list" where
  "saturdayPunches =
     [punch ''Ana'' (mkTime 2 8 10 0) In None,
      punch ''Ana'' (mkTime 2 12 0 0) Break (Some ''Out''),
      punch ''Ana'' (mkTime 2 13 40 0) Break (Some ''In''),
      punch ''Ana'' (mkTime 2 18 0 0) Out None]"

text \<open>The same punches on Sunday 1970-01-04.\<close>

definition sundayPunches :: "AttendanceRecord list" where
  "sundayPunches = map (shiftDays 1) saturdayPunches"

text \<open>Sunday 1970-01-04: a shift from 09:00 to 13:30.\<close>

definition sundayShift :: "AttendanceRecord list" where
  "sundayShift =
     [punch ''Ana'' (mkTime 3 9 0 0) In None,
      punch ''Ana'' (mkTime 3 13 30 0) Out None]"

text \<open>Two punches of the same kind three minutes apart, one on Monday 1970-01-05 at 23:58 and
  one on Tuesday at 00:01.\<close>

definition midnightPunches :: "AttendanceRecord list" where
  "midnightPunches =
     [punch ''Ana'' (mkTime 4 23 58 0) In None,
      punch ''Ana'' (mkTime 5 0 1 0) In None]"

text \<open>
  Monday: punches of the same kind at 08:00:00 and 08:05:59 (given out of order), a third
  one at 08:12 and a departure.
\<close>

definition gapPunches :: "AttendanceRecord list" where
  "gapPunches =
     [punch ''Ana'' (mkTime 4 8 5 59) In None,
      punch ''Ana'' (mkTime 4 8 0 0) In None,
      punch ''Ana'' (mkTime 4 8 12 0) In None,
      punch ''Ana'' (mkTime 4 8 13 0) Out None]"



text \<open>Monday: arrival at 06:58, a break of an hour, departure at 15:38.\<close>

definition shortDayPunches :: "AttendanceRecord list" where
  "shortDayPunches =
     [punch ''Ana'' (mkTime 4 6 58 0) In None,
      punch ''Ana'' (mkTime 4 12 0 0) Break (Some ''Out''),
      punch ''Ana'' (mkTime 4 13 0 0) Break (Some ''In''),
      punch ''Ana'' (mkTime 4 15 38 0) Out None]"

text \<open>Monday: arrival at 06:58, a break of an hour, departure at 17:30.\<close>

definition fullDayPunches :: "AttendanceRecord list" where
  "fullDayPunches =
     [punch ''Ana'' (mkTime 4 6 58 0) In None,
      punch ''Ana'' (mkTime 4 12 0 0) Break (Some ''Out''),
      punch ''Ana'' (mkTime 4 13 0 0) Break (Some ''In''),
      punch ''Ana'' (mkTime 4 17 30 0) Out None]"

text \<open>Monday: arrival at 06:58, a break of 30 minutes and 59 seconds, departure at 15:28.\<close>

definition truncatedBreakPunches :: "AttendanceRecord list" where
  "truncatedBreakPunches =
     [punch ''Ana'' (mkTime 4 6 58 0) In None,
      punch ''Ana'' (mkTime 4 12 0 0) Break (Some ''Out''),
      punch ''Ana'' (mkTime 4 12 30 59) Break (Some ''In''),
      punch ''Ana'' (mkTime 4 15 28 0) Out None]"

text \<open>Monday: arrival at 06:58, breaks of 15 and of 60 minutes, departure at 16:03.\<close>

definition twoBreakPunches :: "AttendanceRecord list" where
  "twoBreakPunches =
     [punch ''Ana'' (mkTime 4 6 58 0) In None,
      punch ''Ana'' (mkTime 4 10 0 0) Break (Some ''Out''),
      punch ''Ana'' (mkTime 4 10 15 0) Break (Some ''In''),
      punch ''Ana'' (mkTime 4 12 0 0) Break (Some ''Out''),
      punch ''Ana'' (mkTime 4 13 0 0) Break (Some ''In''),
      punch ''Ana'' (mkTime 4 16 3 0) Out None]"

text \<open>Monday: arrival at 06:58, a Break-In at 12:00 before the Break-Out at 13:00, departure at 14:28.\<close>

definition swappedBreakPunches :: "AttendanceRecord list" where
  "swappedBreakPunches =
     [punch ''Ana'' (mkTime 4 6 58 0) In None,
      punch ''Ana'' (mkTime 4 12 0 0) Break (Some ''In''),
      punch ''Ana'' (mkTime 4 13 0 0) Break (Some ''Out''),
      punch ''Ana'' (mkTime 4 14 28 0) Out None]"

text \<open>
  A Saturday from 12:00 to 20:00, then Monday and Tuesday in at about 07:00 and out at
  about 16:00, with a break on Monday.
\<close>

definition mixedWeekPunches :: "AttendanceRecord list" where
  "mixedWeekPunches =
     [punch ''Beto'' (mkTime 2 12 0 0) In None,
      punch ''Beto'' (mkTime 2 20 0 0) Out None,
      punch ''Beto'' (mkTime 4 7 2 30) In None,
      punch ''Beto'' (mkTime 4 11 0 0) Break (Some ''Out''),
      punch ''Beto'' (mkTime 4 12 0 0) Break (Some ''In''),
      punch ''Beto'' (mkTime 4 16 1 0) Out None,
      punch ''Beto'' (mkTime 5 6 58 0) In None,
      punch ''Beto'' (mkTime 5 16 10 0) Out None]"

text \<open>
  Three Saturday shifts of 242, 247 and 246 minutes (days 2, 9 and 16), and a Monday from
  06:58 to 17:30.
\<close>

definition saturdayShifts :: "AttendanceRecord list" where
  "saturdayShifts =
     [punch ''Ana'' (mkTime 2 9 0 0) In None,
      punch ''Ana'' (mkTime 2 13 2 0) Out None,
      punch ''Ana'' (mkTime 9 9 0 0) In None,
      punch ''Ana'' (mkTime 9 13 7 0) Out None,
      punch ''Ana'' (mkTime 16 9 0 0) In None,
      punch ''Ana'' (mkTime 16 13 6 0) Out None,
      punch ''Ana'' (mkTime 4 6 58 0) In None,
      punch ''Ana'' (mkTime 4 17 30 0) Out None]"

section \<open>Verified properties\<close>

subsection \<open>Duplicate filter\<close>

lemma foldl_dedupStep:
  "foldl (dedupStep p) (acc @ [x]) rs = acc @ x # keepAfter p x rs"
proof (induction rs arbitrary: acc x)
  case Nil
  show ?case by simp
next
  case (Cons r rs)
  show ?case
  proof (cases "isNewRecord p x r")
    case True
    then have "dedupStep p (acc @ [x]) r = (acc @ [x]) @ [r]"
      by (simp add: dedupStep_def)
    then show ?thesis
      using Cons.IH [of "acc @ [x]" r] True by (simp add: isNewRecord_def)
  next
    case False
    then have "dedupStep p (acc @ [x]) r = acc @ [x]"
      by (simp add: dedupStep_def)
    then show ?thesis
      using Cons.IH [of acc x] False by (simp add: isNewRecord_def)
  qed
qed

lemma filterDuplicateRecords_spec:
  "filterDuplicateRecords records p = duplicateFilterSpec p records"
  using foldl_dedupStep [of p "[]"]
  by (simp add: filterDuplicateRecords_def duplicateFilterSpec_def split: list.splits)

lemma filterDuplicateRecords_Nil:
  "sort_key FechaHora records = [] \<Longrightarrow> filterDuplicateRecords records p = []"
  by (simp add: filterDuplicateRecords_def)

lemma filterDuplicateRecords_Cons:
  "sort_key FechaHora records = x # rs \<Longrightarrow>
     filterDuplicateRecords records p = x # keepAfter p x rs"
  by (simp add: filterDuplicateRecords_spec duplicateFilterSpec_def)

lemma keepAfter_subset: "set (keepAfter p x rs) \<subseteq> set rs"
  by (induction rs arbitrary: x) auto

lemma keepAfter_sorted:
  "sorted (map FechaHora rs) \<Longrightarrow> sorted (map FechaHora (keepAfter p x rs))"
proof (induction rs arbitrary: x)
  case Nil
  then show ?case by simp
next
  case (Cons r rs)
  then show ?case using keepAfter_subset [of p r rs] by auto
qed

lemma keepAfter_length: "length (keepAfter p x rs) \<le> length rs"
  by (induction rs arbitrary: x) (auto intro: le_SucI)

lemma keepAfter_idem: "keepAfter p x (keepAfter p x rs) = keepAfter p x rs"
  by (induction rs arbitrary: x) auto

lemma filterDuplicateRecords_sorted:
  "sorted (map FechaHora (filterDuplicateRecords records p))"
proof (cases "sort_key FechaHora records")
  case Nil
  then show ?thesis by (simp add: filterDuplicateRecords_Nil)
next
  case (Cons x rs)
  have "sorted (map FechaHora (sort_key FechaHora records))" by simp
  with Cons have s: "sorted (map FechaHora (x # rs))" by simp
  then have "sorted (map FechaHora (keepAfter p x rs))"
    using keepAfter_sorted by simp
  moreover have "\<forall>y \<in> set (keepAfter p x rs). FechaHora x \<le> FechaHora y"
    using s keepAfter_subset [of p x rs] by auto
  ultimately show ?thesis
    using Cons by (simp add: filterDuplicateRecords_Cons)
qed

lemma filterDuplicateRecords_length:
  "length (filterDuplicateRecords records p) \<le> length records"
proof (cases "sort_key FechaHora records")
  case Nil
  then show ?thesis by (simp add: filterDuplicateRecords_Nil)
next
  case (Cons x rs)
  have "length (sort_key FechaHora records) = length records" by simp
  with Cons have "length records = Suc (length rs)" by simp
  then show ?thesis
    using Cons keepAfter_length [of p x rs] by (simp add: filterDuplicateRecords_Cons)
qed

lemma filterDuplicateRecords_idem:
  "filterDuplicateRecords (filterDuplicateRecords records p) p = filterDuplicateRecords records p"
proof (cases "sort_key FechaHora records")
  case Nil
  then show ?thesis by (simp add: filterDuplicateRecords_Nil)
next
  case (Cons x rs)
  then have f: "filterDuplicateRecords records p = x # keepAfter p x rs"
    by (rule filterDuplicateRecords_Cons)
  have "sorted (map FechaHora (x # keepAfter p x rs))"
    using filterDuplicateRecords_sorted [of records p] f by simp
  then have "sort_key FechaHora (x # keepAfter p x rs) = x # keepAfter p x rs"
    by (rule sort_key_id_if_sorted)
  then have "filterDuplicateRecords (x # keepAfter p x rs) p
               = x # keepAfter p x (keepAfter p x rs)"
    by (rule filterDuplicateRecords_Cons)
  then show ?thesis using f by (simp add: keepAfter_idem)
qed

subsection \<open>Daily evaluator\<close>

lemma checkMorningArrival_value:
  assumes "f \<noteq> []"
  shows "checkMorningArrival f s p
           \<lparr> lateMinutes = 0, overtimeHours = 0, lateHours = 0,
             totalWorkedMinutes = 0, earlyArrivalOvertime = 0 \<rparr> =
     \<lparr> lateMinutes = arrivalLateness s f, overtimeHours = 0,
       lateHours = tierOf p (arrivalLateness s f),
       totalWorkedMinutes = workedMinutes f,
       earlyArrivalOvertime = earlyArrivalCredit s p (arrivalOf f) \<rparr>"
  using assms
  by (simp add: checkMorningArrival_def Let_def addLate_def arrivalLateness_def lateCredit_def
      tierOf_def workedMinutes_def breakDuration_def earlyArrivalCredit_def arrivalOf_def
      split: option.splits)

lemma earlyArrivalCredit_nonneg: "0 \<le> earlyArrivalCredit s p a"
  by (simp add: earlyArrivalCredit_def)

lemma checkEveningDeparture_value:
  assumes "f \<noteq> []" and "0 \<le> earlyArrivalOvertime st"
  shows "checkEveningDeparture f s p st =
     st\<lparr> overtimeHours := overtimeHours st +
            (if totalWorkedMinutes st \<ge> 480
             then earlyArrivalOvertime st + eveningCredit s p (departureOf f) else 0) \<rparr>"
  using assms
  by (simp add: checkEveningDeparture_def Let_def eveningCredit_def departureOf_def)

lemma checkLunchBreak_value:
  "checkLunchBreak f p st =
     st\<lparr> lateMinutes := lateMinutes st + lunchOverrun p f,
         lateHours := lateHours st + tierOf p (lunchOverrun p f) \<rparr>"
  by (simp add: checkLunchBreak_def Let_def lunchOverrun_def breakDuration_def tierOf_def
      addLate_def lateCredit_def split: option.splits)

lemma analyzeDayRecords_closed_form:
  assumes "f = filterDuplicateRecords rs p" and "f \<noteq> []"
    and "getDay (FechaHora (hd f)) \<noteq> 6"
  shows "analyzeDayRecords rs s p =
     \<lparr> lateMinutes = arrivalLateness s f + lunchOverrun p f,
       overtimeHours =
         (if workedMinutes f \<ge> 480
          then earlyArrivalCredit s p (arrivalOf f) + eveningCredit s p (departureOf f)
          else 0),
       lateHours = tierOf p (arrivalLateness s f) + tierOf p (lunchOverrun p f) \<rparr>"
proof -
  let ?st1 = "\<lparr> lateMinutes = arrivalLateness s f, overtimeHours = 0,
       lateHours = tierOf p (arrivalLateness s f),
       totalWorkedMinutes = workedMinutes f,
       earlyArrivalOvertime = earlyArrivalCredit s p (arrivalOf f) \<rparr>"
  have e: "checkEveningDeparture f s p ?st1 =
     ?st1\<lparr> overtimeHours := overtimeHours ?st1 +
            (if totalWorkedMinutes ?st1 \<ge> 480
             then earlyArrivalOvertime ?st1 + eveningCredit s p (departureOf f) else 0) \<rparr>"
    by (rule checkEveningDeparture_value) (simp_all add: assms(2) earlyArrivalCredit_nonneg)
  have "analyzeDayRecords rs s p =
      (let st3 = checkLunchBreak f p (checkEveningDeparture f s p (checkMorningArrival f s p
                   \<lparr> lateMinutes = 0, overtimeHours = 0, lateHours = 0,
                     totalWorkedMinutes = 0, earlyArrivalOvertime = 0 \<rparr>))
       in \<lparr> lateMinutes = lateMinutes st3, overtimeHours = overtimeHours st3,
            lateHours = lateHours st3 \<rparr>)"
    using assms(2,3) by (simp add: analyzeDayRecords_def Let_def assms(1) [symmetric])
  then show ?thesis
    by (simp add: Let_def checkMorningArrival_value [OF assms(2)] e checkLunchBreak_value)
qed

lemma analyzeDayRecords_empty:
  assumes "filterDuplicateRecords rs p = []"
  shows "analyzeDayRecords rs s p = \<lparr> lateMinutes = 0, overtimeHours = 0, lateHours = 0 \<rparr>"
  using assms
  by (simp add: analyzeDayRecords_def Let_def checkMorningArrival_def
      checkEveningDeparture_def checkLunchBreak_def findBreak_def)

text \<open>
  Claim C2, as amended. For every punch set whose first punch is not on a Saturday, with
  positive late thresholds \<open>halfHour < fullHour\<close>: lateHours is the arrival credit plus
  the lunch-overrun credit, where the arrival credit is 0 for an arrival exactly at the
  scheduled start plus \<open>halfHour\<close>, 0.5 one minute later, 0.5 exactly at the scheduled
  start plus \<open>fullHour\<close> and 1 one minute later; the lunch-overrun credit is 0 when there
  is no break pair or the break is no longer than the lunch duration.
\<close>

theorem late_threshold_boundary:
  assumes "0 < halfHour (lateThresholds p)"
    and "halfHour (lateThresholds p) < fullHour (lateThresholds p)"
    and "f = filterDuplicateRecords rs p" and "f \<noteq> []"
    and "getDay (FechaHora (hd f)) \<noteq> 6"
  shows "(arrivalOf f = startTime s + halfHour (lateThresholds p) \<longrightarrow>
            lateHours (analyzeDayRecords rs s p) = 0 + tierOf p (lunchOverrun p f))
       \<and> (arrivalOf f = startTime s + halfHour (lateThresholds p) + 1 \<longrightarrow>
            lateHours (analyzeDayRecords rs s p) = 1 / 2 + tierOf p (lunchOverrun p f))
       \<and> (arrivalOf f = startTime s + fullHour (lateThresholds p) \<longrightarrow>
            lateHours (analyzeDayRecords rs s p) = 1 / 2 + tierOf p (lunchOverrun p f))
       \<and> (arrivalOf f = startTime s + fullHour (lateThresholds p) + 1 \<longrightarrow>
            lateHours (analyzeDayRecords rs s p) = 1 + tierOf p (lunchOverrun p f))
       \<and> (breakDuration f = None \<or> (\<exists>d. breakDuration f = Some d \<and> d \<le> lunchDuration p) \<longrightarrow>
            tierOf p (lunchOverrun p f) = 0)"
proof -
  have l: "lateHours (analyzeDayRecords rs s p)
             = tierOf p (arrivalLateness s f) + tierOf p (lunchOverrun p f)"
    using analyzeDayRecords_closed_form [OF assms(3,4,5)] by simp
  have a: "arrivalOf f = startTime s + halfHour (lateThresholds p) \<Longrightarrow>
             tierOf p (arrivalLateness s f) = 0"
    using assms(1,2,4) by (simp add: arrivalLateness_def tierOf_def)
  have b: "arrivalOf f = startTime s + halfHour (lateThresholds p) + 1 \<Longrightarrow>
             tierOf p (arrivalLateness s f) = 1 / 2"
    using assms(1,2,4) by (simp add: arrivalLateness_def tierOf_def)
  have c: "arrivalOf f = startTime s + fullHour (lateThresholds p) \<Longrightarrow>
             tierOf p (arrivalLateness s f) = 1 / 2"
    using assms(1,2,4) by (simp add: arrivalLateness_def tierOf_def)
  have d: "arrivalOf f = startTime s + fullHour (lateThresholds p) + 1 \<Longrightarrow>
             tierOf p (arrivalLateness s f) = 1"
    using assms(1,2,4) by (simp add: arrivalLateness_def tierOf_def)
  have e: "breakDuration f = None \<or> (\<exists>d. breakDuration f = Some d \<and> d \<le> lunchDuration p) \<Longrightarrow>
             tierOf p (lunchOverrun p f) = 0"
    by (auto simp add: lunchOverrun_def tierOf_def)
  show ?thesis
    using l a b c d e by simp
qed

theorem late_threshold_boundary_witness:
  "lateHours (analyzeDayRecords (arrivalAt 5) (regularSchedule DEFAULT_PREFERENCES)
       DEFAULT_PREFERENCES) = 0
   \<and> lateHours (analyzeDayRecords (arrivalAt 6) (regularSchedule DEFAULT_PREFERENCES)
       DEFAULT_PREFERENCES) = 1 / 2
   \<and> lateHours (analyzeDayRecords (arrivalAt 35) (regularSchedule DEFAULT_PREFERENCES)
       DEFAULT_PREFERENCES) = 1 / 2
   \<and> lateHours (analyzeDayRecords (arrivalAt 36) (regularSchedule DEFAULT_PREFERENCES)
       DEFAULT_PREFERENCES) = 1"
proof -
  let ?p = DEFAULT_PREFERENCES
  let ?s = "regularSchedule DEFAULT_PREFERENCES"
  have h1: "0 < halfHour (lateThresholds ?p)" by code_simp
  have h2: "halfHour (lateThresholds ?p) < fullHour (lateThresholds ?p)" by code_simp
  have n: "filterDuplicateRecords (arrivalAt m) ?p \<noteq> []" for m
    by (simp add: arrivalAt_def filterDuplicateRecords_def)
  have g5: "getDay (FechaHora (hd (filterDuplicateRecords (arrivalAt 5) ?p))) \<noteq> 6"
    by code_simp
  have g6: "getDay (FechaHora (hd (filterDuplicateRecords (arrivalAt 6) ?p))) \<noteq> 6"
    by code_simp
  have g35: "getDay (FechaHora (hd (filterDuplicateRecords (arrivalAt 35) ?p))) \<noteq> 6"
    by code_simp
  have g36: "getDay (FechaHora (hd (filterDuplicateRecords (arrivalAt 36) ?p))) \<noteq> 6"
    by code_simp
  have a5: "arrivalOf (filterDuplicateRecords (arrivalAt 5) ?p)
              = startTime ?s + halfHour (lateThresholds ?p)" by code_simp
  have a6: "arrivalOf (filterDuplicateRecords (arrivalAt 6) ?p)
              = startTime ?s + halfHour (lateThresholds ?p) + 1" by code_simp
  have a35: "arrivalOf (filterDuplicateRecords (arrivalAt 35) ?p)
              = startTime ?s + fullHour (lateThresholds ?p)" by code_simp
  have a36: "arrivalOf (filterDuplicateRecords (arrivalAt 36) ?p)
              = startTime ?s + fullHour (lateThresholds ?p) + 1" by code_simp
  have b: "breakDuration (filterDuplicateRecords (arrivalAt m) ?p) = None" for m
    by (simp add: arrivalAt_def filterDuplicateRecords_def breakDuration_def findBreak_def
        punch_def)
  have "lateHours (analyzeDayRecords (arrivalAt 5) ?s ?p) = 0"
    using late_threshold_boundary [OF h1 h2 refl n g5, of ?s] a5 b by simp
  moreover have "lateHours (analyzeDayRecords (arrivalAt 6) ?s ?p) = 1 / 2"
    using late_threshold_boundary [OF h1 h2 refl n g6, of ?s] a6 b by simp
  moreover have "lateHours (analyzeDayRecords (arrivalAt 35) ?s ?p) = 1 / 2"
    using late_threshold_boundary [OF h1 h2 refl n g35, of ?s] a35 b by simp
  moreover have "lateHours (analyzeDayRecords (arrivalAt 36) ?s ?p) = 1"
    using late_threshold_boundary [OF h1 h2 refl n g36, of ?s] a36 b by simp
  ultimately show ?thesis by blast
qed

text \<open>
  The claim as stated (lateHours is 0 for every weekday punch set arriving exactly at the
  scheduled start plus \<open>halfHour\<close>) fails when the day has a long break: a Monday arrival
  at 08:05 with a break of 100 minutes has lateHours 1.
\<close>

theorem late_threshold_boundary_counterexample:
  "getDay (FechaHora (hd (filterDuplicateRecords lateLunchPunches DEFAULT_PREFERENCES))) = 1
   \<and> arrivalOf (filterDuplicateRecords lateLunchPunches DEFAULT_PREFERENCES)
       = startTime (regularSchedule DEFAULT_PREFERENCES)
         + halfHour (lateThresholds DEFAULT_PREFERENCES)
   \<and> lateHours (analyzeDayRecords lateLunchPunches (regularSchedule DEFAULT_PREFERENCES)
       DEFAULT_PREFERENCES) = 1"
  by code_simp


subsection \<open>Saturdays and Sundays in the daily evaluator and in the aggregation\<close>

lemma filterDuplicateRecords_hd:
  assumes "rs \<noteq> []"
  shows "filterDuplicateRecords rs p \<noteq> []"
    and "hd (filterDuplicateRecords rs p) = hd (sort_key FechaHora rs)"
proof -
  have "length (sort_key FechaHora rs) = length rs" by simp
  with assms obtain x xs where c: "sort_key FechaHora rs = x # xs"
    by (cases "sort_key FechaHora rs") auto
  from filterDuplicateRecords_Cons [OF c, of p] c
  show "filterDuplicateRecords rs p \<noteq> []"
    and "hd (filterDuplicateRecords rs p) = hd (sort_key FechaHora rs)"
    by simp_all
qed

lemma analyzeDayRecords_saturday:
  assumes "rs \<noteq> []" and "getDay (FechaHora (hd (sort_key FechaHora rs))) = 6"
  shows "analyzeDayRecords rs s p = \<lparr> lateMinutes = 0, overtimeHours = 0, lateHours = 0 \<rparr>"
  using assms filterDuplicateRecords_hd [OF assms(1), of p]
  by (simp add: analyzeDayRecords_def Let_def)

lemma dayStep_weekend:
  assumes "isWeekend (parseDate (fst entry))"
  shows "lateTotals (dayStep startDate endDate s p tot entry) = lateTotals tot"
  using assms by (simp add: dayStep_def Let_def lateTotals_def)

lemma dayStep_lateTotals_cong:
  assumes "lateTotals tot = lateTotals tot'"
  shows "lateTotals (dayStep startDate endDate s p tot entry)
           = lateTotals (dayStep startDate endDate s p tot' entry)"
  using assms by (simp add: dayStep_def Let_def lateTotals_def)

lemma foldl_dayStep_cong:
  assumes "lateTotals tot = lateTotals tot'"
  shows "lateTotals (foldl (dayStep startDate endDate s p) tot buckets)
           = lateTotals (foldl (dayStep startDate endDate s p) tot' buckets)"
  using assms
proof (induction buckets arbitrary: tot tot')
  case Nil
  then show ?case by simp
next
  case (Cons b bs)
  from dayStep_lateTotals_cong [OF Cons.prems]
  have "lateTotals (dayStep startDate endDate s p tot b)
          = lateTotals (dayStep startDate endDate s p tot' b)" .
  from Cons.IH [OF this] show ?case by simp
qed

lemma foldl_dayStep_drop_saturdays:
  "lateTotals (foldl (dayStep startDate endDate s p) tot buckets)
     = lateTotals (foldl (dayStep startDate endDate s p) tot
         (filter (\<lambda>entry. \<not> isSaturdayBucket entry) buckets))"
proof (induction buckets arbitrary: tot)
  case Nil
  show ?case by simp
next
  case (Cons b bs)
  show ?case
  proof (cases "isSaturdayBucket b")
    case True
    then have "isWeekend (parseDate (fst b))"
      by (simp add: isSaturdayBucket_def isWeekend_def)
    then have "lateTotals (dayStep startDate endDate s p tot b) = lateTotals tot"
      by (rule dayStep_weekend)
    from foldl_dayStep_cong [OF this]
    have "lateTotals (foldl (dayStep startDate endDate s p) (dayStep startDate endDate s p tot b) bs)
            = lateTotals (foldl (dayStep startDate endDate s p) tot bs)" .
    then show ?thesis using True Cons.IH [of tot] by simp
  next
    case False
    then show ?thesis using Cons.IH [of "dayStep startDate endDate s p tot b"] by simp
  qed
qed

text \<open>
  Claim C6. For every non-empty punch list whose first punch in time order is on a
  Saturday the daily evaluator returns lateMinutes 0, overtimeHours 0 and lateHours 0,
  whatever the breaks are. In the aggregation a weekend bucket leaves the late days, late
  minutes, late hours and overtime hours as they were, so the aggregated values, also those
  of an employee's totals, are those of the buckets without the Saturday ones.
\<close>

theorem saturday_exclusion:
  "(rs \<noteq> [] \<and> getDay (FechaHora (hd (sort_key FechaHora rs))) = 6 \<longrightarrow>
      analyzeDayRecords rs s p = \<lparr> lateMinutes = 0, overtimeHours = 0, lateHours = 0 \<rparr>)
   \<and> (isWeekend (parseDate (fst entry)) \<longrightarrow>
        totalLateDays (dayStep startDate endDate s p tot entry) = totalLateDays tot
      \<and> totalLateMinutes (dayStep startDate endDate s p tot entry) = totalLateMinutes tot
      \<and> totalLateHours (dayStep startDate endDate s p tot entry) = totalLateHours tot
      \<and> totalOvertimeHours (dayStep startDate endDate s p tot entry) = totalOvertimeHours tot)
   \<and> lateTotals (foldl (dayStep startDate endDate s p) tot buckets)
       = lateTotals (foldl (dayStep startDate endDate s p) tot
           (filter (\<lambda>entry. \<not> isSaturdayBucket entry) buckets))
   \<and> lateTotals (employeeTotals userRecords startDate endDate p)
       = lateTotals (foldl (dayStep startDate endDate
             (detectSchedule (filterDuplicateRecords userRecords p) p) p) zeroTotals
           (filter (\<lambda>entry. \<not> isSaturdayBucket entry)
              (groupByDay (filterDuplicateRecords userRecords p))))"
proof (intro conjI impI)
  assume "rs \<noteq> [] \<and> getDay (FechaHora (hd (sort_key FechaHora rs))) = 6"
  then show "analyzeDayRecords rs s p = \<lparr> lateMinutes = 0, overtimeHours = 0, lateHours = 0 \<rparr>"
    using analyzeDayRecords_saturday by blast
next
  assume w: "isWeekend (parseDate (fst entry))"
  from dayStep_weekend [OF w, of startDate endDate s p tot]
  show "totalLateDays (dayStep startDate endDate s p tot entry) = totalLateDays tot"
    and "totalLateMinutes (dayStep startDate endDate s p tot entry) = totalLateMinutes tot"
    and "totalLateHours (dayStep startDate endDate s p tot entry) = totalLateHours tot"
    and "totalOvertimeHours (dayStep startDate endDate s p tot entry) = totalOvertimeHours tot"
    by (simp_all add: lateTotals_def)
next
  show "lateTotals (foldl (dayStep startDate endDate s p) tot buckets)
       = lateTotals (foldl (dayStep startDate endDate s p) tot
           (filter (\<lambda>entry. \<not> isSaturdayBucket entry) buckets))"
    by (rule foldl_dayStep_drop_saturdays)
next
  show "lateTotals (employeeTotals userRecords startDate endDate p)
       = lateTotals (foldl (dayStep startDate endDate
             (detectSchedule (filterDuplicateRecords userRecords p) p) p) zeroTotals
           (filter (\<lambda>entry. \<not> isSaturdayBucket entry)
              (groupByDay (filterDuplicateRecords userRecords p))))"
    unfolding employeeTotals_def Let_def by (rule foldl_dayStep_drop_saturdays)
qed

theorem saturday_exclusion_witness:
  "analyzeDayRecords saturdayPunches (regularSchedule DEFAULT_PREFERENCES) DEFAULT_PREFERENCES
     = \<lparr> lateMinutes = 0, overtimeHours = 0, lateHours = 0 \<rparr>
   \<and> totalLateDays (dayStep (mkTime 0 0 0 0) (mkTime 14 0 0 0)
         (regularSchedule DEFAULT_PREFERENCES) DEFAULT_PREFERENCES zeroTotals
         (2, saturdayPunches)) = 0
   \<and> totalLateMinutes (dayStep (mkTime 0 0 0 0) (mkTime 14 0 0 0)
         (regularSchedule DEFAULT_PREFERENCES) DEFAULT_PREFERENCES zeroTotals
         (2, saturdayPunches)) = 0
   \<and> totalLateHours (dayStep (mkTime 0 0 0 0) (mkTime 14 0 0 0)
         (regularSchedule DEFAULT_PREFERENCES) DEFAULT_PREFERENCES zeroTotals
         (2, saturdayPunches)) = 0
   \<and> totalOvertimeHours (dayStep (mkTime 0 0 0 0) (mkTime 14 0 0 0)
         (regularSchedule DEFAULT_PREFERENCES) DEFAULT_PREFERENCES zeroTotals
         (2, saturdayPunches)) = 0
   \<and> lateTotals (foldl (dayStep (mkTime 0 0 0 0) (mkTime 14 0 0 0)
         (regularSchedule DEFAULT_PREFERENCES) DEFAULT_PREFERENCES) zeroTotals
         [(2, saturdayPunches), (4, lateLunchPunches)])
       = lateTotals (foldl (dayStep (mkTime 0 0 0 0) (mkTime 14 0 0 0)
         (regularSchedule DEFAULT_PREFERENCES) DEFAULT_PREFERENCES) zeroTotals
         [(4, lateLunchPunches)])"
proof -
  let ?p = DEFAULT_PREFERENCES
  let ?s = "regularSchedule DEFAULT_PREFERENCES"
  let ?b = "[(2, saturdayPunches), (4, lateLunchPunches)]"
  note t = saturday_exclusion [where rs = saturdayPunches and s = ?s and p = ?p
      and entry = "(2, saturdayPunches)" and startDate = "mkTime 0 0 0 0"
      and endDate = "mkTime 14 0 0 0" and tot = zeroTotals and buckets = ?b]
  have h1: "saturdayPunches \<noteq> [] \<and> getDay (FechaHora (hd (sort_key FechaHora saturdayPunches))) = 6"
    by code_simp
  have h2: "isWeekend (parseDate (fst (2::int, saturdayPunches)))"
    by code_simp
  have f: "filter (\<lambda>entry. \<not> isSaturdayBucket entry) ?b = [(4, lateLunchPunches)]"
    by (simp add: isSaturdayBucket_def getDay_def parseDate_def)
  have z: "totalLateDays zeroTotals = 0 \<and> totalLateMinutes zeroTotals = 0
         \<and> totalLateHours zeroTotals = 0 \<and> totalOvertimeHours zeroTotals = 0"
    by (simp add: zeroTotals_def)
  from t h1 have a: "analyzeDayRecords saturdayPunches ?s ?p
     = \<lparr> lateMinutes = 0, overtimeHours = 0, lateHours = 0 \<rparr>"
    by blast
  from t h2 z have b: "totalLateDays (dayStep (mkTime 0 0 0 0) (mkTime 14 0 0 0) ?s ?p zeroTotals
         (2, saturdayPunches)) = 0
   \<and> totalLateMinutes (dayStep (mkTime 0 0 0 0) (mkTime 14 0 0 0) ?s ?p zeroTotals
         (2, saturdayPunches)) = 0
   \<and> totalLateHours (dayStep (mkTime 0 0 0 0) (mkTime 14 0 0 0) ?s ?p zeroTotals
         (2, saturdayPunches)) = 0
   \<and> totalOvertimeHours (dayStep (mkTime 0 0 0 0) (mkTime 14 0 0 0) ?s ?p zeroTotals
         (2, saturdayPunches)) = 0"
    by metis
  from t have "lateTotals (foldl (dayStep (mkTime 0 0 0 0) (mkTime 14 0 0 0) ?s ?p) zeroTotals ?b)
       = lateTotals (foldl (dayStep (mkTime 0 0 0 0) (mkTime 14 0 0 0) ?s ?p) zeroTotals
           (filter (\<lambda>entry. \<not> isSaturdayBucket entry) ?b))"
    by blast
  then have c: "lateTotals (foldl (dayStep (mkTime 0 0 0 0) (mkTime 14 0 0 0) ?s ?p) zeroTotals ?b)
       = lateTotals (foldl (dayStep (mkTime 0 0 0 0) (mkTime 14 0 0 0) ?s ?p) zeroTotals
           [(4, lateLunchPunches)])"
    unfolding f .
  from a b c show ?thesis by blast
qed

lemma insort_key_shiftDays:
  "insort_key FechaHora (shiftDays n x) (map (shiftDays n) ys)
     = map (shiftDays n) (insort_key FechaHora x ys)"
  by (induction ys) (simp_all add: shiftDays_def)

lemma sort_key_shiftDays:
  "sort_key FechaHora (map (shiftDays n) rs) = map (shiftDays n) (sort_key FechaHora rs)"
  by (induction rs) (simp_all add: insort_key_shiftDays)

lemma differenceInMinutes_shift:
  "differenceInMinutes (a + c) (b + c) = differenceInMinutes a b"
  by (simp add: differenceInMinutes_def)

lemma keepAfter_shiftDays:
  "keepAfter p (shiftDays n x) (map (shiftDays n) rs) = map (shiftDays n) (keepAfter p x rs)"
  by (induction rs arbitrary: x) (simp_all add: shiftDays_def differenceInMinutes_shift)

lemma filterDuplicateRecords_shiftDays:
  "filterDuplicateRecords (map (shiftDays n) rs) p
     = map (shiftDays n) (filterDuplicateRecords rs p)"
proof (cases "sort_key FechaHora rs")
  case Nil
  then show ?thesis
    by (simp add: filterDuplicateRecords_Nil sort_key_shiftDays)
next
  case (Cons x xs)
  then have "sort_key FechaHora (map (shiftDays n) rs) = shiftDays n x # map (shiftDays n) xs"
    by (simp add: sort_key_shiftDays)
  from filterDuplicateRecords_Cons [OF this] filterDuplicateRecords_Cons [OF Cons]
  show ?thesis by (simp add: keepAfter_shiftDays)
qed

lemma minuteOfDay_shift: "minuteOfDay (t + n * 86400) = minuteOfDay t"
proof -
  have "(t + n * 86400) mod 86400 = t mod 86400" by simp
  moreover have "(t + n * 86400) mod 3600 = t mod 3600"
  proof -
    have "t + n * 86400 = t + (n * 24) * 3600" by simp
    then show ?thesis by (metis mod_mult_self1)
  qed
  ultimately show ?thesis by (simp add: minuteOfDay_def getHours_def getMinutes_def)
qed

lemma getDay_shift: "getDay (t + n * 86400) = (getDay t + n) mod 7"
  by (simp add: getDay_def mod_simps add.commute add.left_commute)

lemma findBreak_shiftDays:
  "findBreak op (map (shiftDays n) f) = map_option (shiftDays n) (findBreak op f)"
  by (induction f) (simp_all add: findBreak_def shiftDays_def)

lemma breakDuration_shiftDays:
  "breakDuration (map (shiftDays n) f) = breakDuration f"
  by (simp add: breakDuration_def findBreak_shiftDays shiftDays_def differenceInMinutes_shift
      split: option.splits)

lemma shiftDays_measures:
  assumes "f \<noteq> []"
  shows "arrivalOf (map (shiftDays n) f) = arrivalOf f"
    and "departureOf (map (shiftDays n) f) = departureOf f"
    and "workedMinutes (map (shiftDays n) f) = workedMinutes f"
    and "lunchOverrun p (map (shiftDays n) f) = lunchOverrun p f"
    and "arrivalLateness s (map (shiftDays n) f) = arrivalLateness s f"
  using assms
  by (simp_all add: arrivalOf_def departureOf_def workedMinutes_def lunchOverrun_def
      arrivalLateness_def breakDuration_shiftDays hd_map last_map shiftDays_def
      minuteOfDay_shift differenceInMinutes_shift)

lemma analyzeDayRecords_shiftDays:
  assumes "f = filterDuplicateRecords rs p" and "f \<noteq> []"
    and "getDay (FechaHora (hd f)) \<noteq> 6" and "(getDay (FechaHora (hd f)) + n) mod 7 \<noteq> 6"
  shows "analyzeDayRecords (map (shiftDays n) rs) s p = analyzeDayRecords rs s p"
proof -
  let ?g = "map (shiftDays n) f"
  have g: "?g = filterDuplicateRecords (map (shiftDays n) rs) p"
    using assms(1) by (simp add: filterDuplicateRecords_shiftDays)
  have ne: "?g \<noteq> []" using assms(2) by simp
  have "FechaHora (hd ?g) = FechaHora (hd f) + n * 86400"
    using assms(2) by (simp add: hd_map shiftDays_def)
  then have d: "getDay (FechaHora (hd ?g)) \<noteq> 6"
    using assms(4) by (simp add: getDay_shift)
  show ?thesis
    using analyzeDayRecords_closed_form [OF g ne d, of s]
      analyzeDayRecords_closed_form [OF assms(1,2,3), of s]
      shiftDays_measures [OF assms(2)]
    by simp
qed

subsection \<open>Sundays, and two inputs on which the aggregation departs from its intent\<close>

text \<open>
  Claim C10. For every non-empty punch list whose first punch in time order is on a Sunday
  the daily evaluator does not short-circuit: its result is the one it gives for the same
  punches on the following Monday, that is arrival lateness plus lunch overrun, the gated
  overtime, and the two late tiers, against the supplied schedule. A Sunday list with a
  late arrival, a long break and a late departure gets lateMinutes 50, overtimeHours 1 and
  lateHours 1.5.
\<close>

theorem sunday_not_short_circuited:
  "(rs \<noteq> [] \<and> getDay (FechaHora (hd (sort_key FechaHora rs))) = 0 \<longrightarrow>
      getDay (FechaHora (hd (sort_key FechaHora (map (shiftDays 1) rs)))) = 1
    \<and> analyzeDayRecords rs s p = analyzeDayRecords (map (shiftDays 1) rs) s p
    \<and> analyzeDayRecords rs s p =
        \<lparr> lateMinutes = arrivalLateness s (filterDuplicateRecords rs p)
                          + lunchOverrun p (filterDuplicateRecords rs p),
          overtimeHours =
            (if workedMinutes (filterDuplicateRecords rs p) \<ge> 480
             then earlyArrivalCredit s p (arrivalOf (filterDuplicateRecords rs p))
                  + eveningCredit s p (departureOf (filterDuplicateRecords rs p))
             else 0),
          lateHours = tierOf p (arrivalLateness s (filterDuplicateRecords rs p))
                      + tierOf p (lunchOverrun p (filterDuplicateRecords rs p)) \<rparr>)
   \<and> sundayPunches \<noteq> []
   \<and> getDay (FechaHora (hd (sort_key FechaHora sundayPunches))) = 0
   \<and> analyzeDayRecords sundayPunches (regularSchedule DEFAULT_PREFERENCES) DEFAULT_PREFERENCES
       = \<lparr> lateMinutes = 50, overtimeHours = 1, lateHours = 3 / 2 \<rparr>"
proof (intro conjI impI)
  assume a: "rs \<noteq> [] \<and> getDay (FechaHora (hd (sort_key FechaHora rs))) = 0"
  let ?f = "filterDuplicateRecords rs p"
  from a have ne: "?f \<noteq> []" and h: "hd ?f = hd (sort_key FechaHora rs)"
    using filterDuplicateRecords_hd [of rs p] by simp_all
  from a h have d: "getDay (FechaHora (hd ?f)) = 0" by simp
  then have d6: "getDay (FechaHora (hd ?f)) \<noteq> 6" by simp
  have d1: "(getDay (FechaHora (hd ?f)) + 1) mod 7 \<noteq> 6" using d by simp
  from a have "sort_key FechaHora rs \<noteq> []"
    by (metis length_sort length_0_conv)
  then have "hd (sort_key FechaHora (map (shiftDays 1) rs))
               = shiftDays 1 (hd (sort_key FechaHora rs))"
    by (simp add: sort_key_shiftDays hd_map)
  then have "FechaHora (hd (sort_key FechaHora (map (shiftDays 1) rs)))
               = FechaHora (hd (sort_key FechaHora rs)) + 1 * 86400"
    by (simp add: shiftDays_def)
  then have "getDay (FechaHora (hd (sort_key FechaHora (map (shiftDays 1) rs))))
               = (getDay (FechaHora (hd (sort_key FechaHora rs))) + 1) mod 7"
    by (simp only: getDay_shift)
  then show "getDay (FechaHora (hd (sort_key FechaHora (map (shiftDays 1) rs)))) = 1"
    using a by simp
  show "analyzeDayRecords rs s p = analyzeDayRecords (map (shiftDays 1) rs) s p"
    using analyzeDayRecords_shiftDays [OF refl ne d6 d1, of s] by simp
  show "analyzeDayRecords rs s p =
        \<lparr> lateMinutes = arrivalLateness s ?f + lunchOverrun p ?f,
          overtimeHours =
            (if workedMinutes ?f \<ge> 480
             then earlyArrivalCredit s p (arrivalOf ?f) + eveningCredit s p (departureOf ?f)
             else 0),
          lateHours = tierOf p (arrivalLateness s ?f) + tierOf p (lunchOverrun p ?f) \<rparr>"
    by (rule analyzeDayRecords_closed_form [OF refl ne d6])
next
  show "sundayPunches \<noteq> []" by code_simp
  show "getDay (FechaHora (hd (sort_key FechaHora sundayPunches))) = 0" by code_simp
  show "analyzeDayRecords sundayPunches (regularSchedule DEFAULT_PREFERENCES) DEFAULT_PREFERENCES
       = \<lparr> lateMinutes = 50, overtimeHours = 1, lateHours = 3 / 2 \<rparr>"
    by code_simp
qed

theorem sunday_not_short_circuited_witness:
  "getDay (FechaHora (hd (sort_key FechaHora (map (shiftDays 1) sundayPunches)))) = 1
   \<and> analyzeDayRecords (map (shiftDays 1) sundayPunches)
        (regularSchedule DEFAULT_PREFERENCES) DEFAULT_PREFERENCES
       = \<lparr> lateMinutes = 50, overtimeHours = 1, lateHours = 3 / 2 \<rparr>"
proof -
  note t = sunday_not_short_circuited [where rs = sundayPunches
      and s = "regularSchedule DEFAULT_PREFERENCES" and p = DEFAULT_PREFERENCES]
  from t have h: "sundayPunches \<noteq> []
      \<and> getDay (FechaHora (hd (sort_key FechaHora sundayPunches))) = 0"
    by blast
  from t have v: "analyzeDayRecords sundayPunches (regularSchedule DEFAULT_PREFERENCES)
      DEFAULT_PREFERENCES = \<lparr> lateMinutes = 50, overtimeHours = 1, lateHours = 3 / 2 \<rparr>"
    by blast
  from t h have "getDay (FechaHora (hd (sort_key FechaHora (map (shiftDays 1) sundayPunches)))) = 1
    \<and> analyzeDayRecords sundayPunches (regularSchedule DEFAULT_PREFERENCES) DEFAULT_PREFERENCES
        = analyzeDayRecords (map (shiftDays 1) sundayPunches)
            (regularSchedule DEFAULT_PREFERENCES) DEFAULT_PREFERENCES"
    by blast
  with v show ?thesis by simp
qed

text \<open>
  Claim C1. The aggregation should add Saturday hours from Saturday buckets only. It tests
  \<open>isWeekend\<close>, so a Sunday bucket with two punches is added as well: a Sunday shift from
  09:00 to 13:30 gives saturdayHours 4.5.
\<close>

theorem sunday_hours_in_saturdayHours:
  "map (\<lambda>r. getDay (FechaHora r)) sundayShift = [0, 0]
   \<and> map saturdayHours
       (analyzeAttendance sundayShift (mkTime 0 0 0 0) (mkTime 14 0 0 0) DEFAULT_PREFERENCES)
     = [9 / 2]"
  by code_simp

text \<open>
  Claim C5. An employee with a record on every company workday should have no absence. The
  company workdays come from the raw records and the employee's days from the filtered ones:
  a Tuesday punch at 00:01 that the duplicate filter drops after a Monday punch at 23:58
  leaves Tuesday a company workday, made so by this employee alone, and counts it as an
  absence of theirs.
\<close>

theorem absence_on_a_day_with_a_punch:
  "map (\<lambda>r. (Nombre r, dateOf (FechaHora r))) midnightPunches = [(''Ana'', 4), (''Ana'', 5)]
   \<and> getCompanyWorkdays midnightPunches (mkTime 0 0 0 0) (mkTime 14 0 0 0) = [4, 5]
   \<and> map (\<lambda>r. (name r, absences r))
       (analyzeAttendance midnightPunches (mkTime 0 0 0 0) (mkTime 14 0 0 0)
          DEFAULT_PREFERENCES)
     = [(''Ana'', 1)]"
  by code_simp

lemma countAbsences_conv:
  "foldl (\<lambda>totalAbsences date. if P date then totalAbsences + 1 else totalAbsences) n ds
     = n + length (filter P ds)"
  by (induction ds arbitrary: n) simp_all

lemma countAbsences_le: "countAbsences companyWorkdays userWorkdays \<le> length companyWorkdays"
  unfolding countAbsences_def countAbsences_conv by simp

lemma setAdd_distinct: "distinct xs \<Longrightarrow> distinct (setAdd x xs)"
  by (simp add: setAdd_def)

lemma getCompanyWorkdays_distinct: "distinct (getCompanyWorkdays records startDate endDate)"
proof -
  have "distinct acc \<Longrightarrow>
      distinct (foldl (\<lambda>workdays record.
              let date = dateOf (FechaHora record);
                  recordDate = parseDate date
              in if \<not> isWeekend recordDate \<and> isWithinInterval recordDate startDate endDate
                 then setAdd date workdays else workdays) acc records)" for acc
    by (induction records arbitrary: acc) (simp_all add: Let_def setAdd_distinct)
  then show ?thesis by (simp add: getCompanyWorkdays_def)
qed

text \<open>
  The bound on the absences does hold: they never exceed the number of company workdays
  (the list of company workdays has no repetition).
\<close>

lemma absences_le_companyWorkdays:
  assumes "r \<in> set (analyzeAttendance records startDate endDate p)"
  shows "absences r \<le> length (getCompanyWorkdays records startDate endDate)"
    and "absences r \<le> card (set (getCompanyWorkdays records startDate endDate))"
proof -
  show "absences r \<le> length (getCompanyWorkdays records startDate endDate)"
    using assms
    by (auto simp add: analyzeAttendance_def analyzeEmployee_def Let_def countAbsences_le)
  then show "absences r \<le> card (set (getCompanyWorkdays records startDate endDate))"
    by (simp add: distinct_card [OF getCompanyWorkdays_distinct])
qed

subsection \<open>Sums\<close>

lemma foldl_plus_sum_list: "foldl (+) (n::int) xs = n + sum_list xs"
  by (induction xs arbitrary: n) simp_all

subsection \<open>Duplicate filter against the specification\<close>

lemma differenceInMinutes_wholeMinutes:
  "differenceInMinutes a b = wholeMinutes (a - b)"
  by (simp add: differenceInMinutes_def wholeMinutes_def Let_def)

lemma div60_of_hours:
  fixes s :: int
  shows "s div 60 = s div 3600 * 60 + (s mod 3600) div 60"
proof -
  have "s = s mod 3600 + (s div 3600 * 60) * 60"
    by (simp add: algebra_simps)
  then have "s div 60 = (s mod 3600 + (s div 3600 * 60) * 60) div 60"
    by (rule arg_cong)
  also have "\<dots> = s div 3600 * 60 + (s mod 3600) div 60"
    by (subst div_mult_self1) simp_all
  finally show ?thesis .
qed

lemma minuteOfDay_clockMinute: "minuteOfDay t = clockMinute t"
proof -
  have "t mod 3600 = (t mod 86400) mod 3600"
    by (simp add: mod_mod_cancel)
  then show ?thesis
    using div60_of_hours [of "t mod 86400"]
    by (simp add: minuteOfDay_def getHours_def getMinutes_def clockMinute_def)
qed

lemma findBreak_firstBreakTime:
  "map_option FechaHora (findBreak tag f) = firstBreakTime tag f"
  by (induction f) (simp_all add: findBreak_def)

lemma keepAfter_keepApart:
  "keepAfter p x rs = keepApart (moreThanWholeMinutes (duplicateThresholdMinutes p)) x rs"
  by (induction rs arbitrary: x)
    (simp_all add: moreThanWholeMinutes_def differenceInMinutes_wholeMinutes)

lemma filterDuplicateRecords_filterKeeping:
  "filterDuplicateRecords records p
     = filterKeeping (moreThanWholeMinutes (duplicateThresholdMinutes p)) records"
  by (simp add: filterDuplicateRecords_spec duplicateFilterSpec_def filterKeeping_def
      keepAfter_keepApart split: list.splits)

lemma div60_gt: "(d div 60 > w) = (d \<ge> (w + 1) * (60::int))"
proof
  assume "w < d div 60"
  then have "(w + 1) * 60 \<le> (d div 60) * 60" by simp
  also have "\<dots> \<le> d"
  proof -
    have "d div 60 * 60 + d mod 60 = d" by simp
    moreover have "0 \<le> d mod 60" by simp
    ultimately show ?thesis by linarith
  qed
  finally show "(w + 1) * 60 \<le> d" .
next
  assume "(w + 1) * 60 \<le> d"
  then have "((w + 1) * 60) div 60 \<le> d div 60" by (rule zdiv_mono1) simp
  then show "w < d div 60" by simp
qed

lemma wholeMinutes_exceeds:
  "0 \<le> d \<Longrightarrow> (wholeMinutes d > w) = (d \<ge> (w + 1) * 60)"
  by (simp add: wholeMinutes_def div60_gt)

text \<open>
  Claim C3, as amended. For every punch list and configuration the duplicate filter is
  idempotent, its output is sorted ascending by timestamp and no longer than its input, and
  it is the filter of the specification with the distance counted in whole minutes: after
  sorting, the first record is kept, and each later record is kept exactly when the whole
  minutes between the last kept record and it exceed the duplicate window (it is at least
  window + 1 full minutes later), or it differs from it in punch kind or in operation tag.
\<close>

theorem filterDuplicateRecords_properties:
  "filterDuplicateRecords (filterDuplicateRecords x preferences) preferences
     = filterDuplicateRecords x preferences
   \<and> sorted (map FechaHora (filterDuplicateRecords x preferences))
   \<and> length (filterDuplicateRecords x preferences) \<le> length x
   \<and> filterDuplicateRecords x preferences
       = filterKeeping (moreThanWholeMinutes (duplicateThresholdMinutes preferences)) x
   \<and> (earlier \<le> later \<longrightarrow>
        moreThanWholeMinutes window earlier later = (later - earlier \<ge> (window + 1) * 60))"
proof (intro conjI impI)
  show "filterDuplicateRecords (filterDuplicateRecords x preferences) preferences
     = filterDuplicateRecords x preferences"
    by (rule filterDuplicateRecords_idem)
  show "sorted (map FechaHora (filterDuplicateRecords x preferences))"
    by (rule filterDuplicateRecords_sorted)
  show "length (filterDuplicateRecords x preferences) \<le> length x"
    by (rule filterDuplicateRecords_length)
  show "filterDuplicateRecords x preferences
       = filterKeeping (moreThanWholeMinutes (duplicateThresholdMinutes preferences)) x"
    by (rule filterDuplicateRecords_filterKeeping)
next
  assume "earlier \<le> later"
  then show "moreThanWholeMinutes window earlier later = (later - earlier \<ge> (window + 1) * 60)"
    using wholeMinutes_exceeds [of "later - earlier" window]
    by (simp add: moreThanWholeMinutes_def)
qed

lemma gapPunches_filtered:
  "filterDuplicateRecords gapPunches DEFAULT_PREFERENCES =
     [punch ''Ana'' (mkTime 4 8 0 0) In None,
      punch ''Ana'' (mkTime 4 8 12 0) In None,
      punch ''Ana'' (mkTime 4 8 13 0) Out None]"
  by code_simp

theorem filterDuplicateRecords_properties_witness:
  "filterDuplicateRecords gapPunches DEFAULT_PREFERENCES =
     [punch ''Ana'' (mkTime 4 8 0 0) In None,
      punch ''Ana'' (mkTime 4 8 12 0) In None,
      punch ''Ana'' (mkTime 4 8 13 0) Out None]
   \<and> filterDuplicateRecords (filterDuplicateRecords gapPunches DEFAULT_PREFERENCES)
       DEFAULT_PREFERENCES
     = filterDuplicateRecords gapPunches DEFAULT_PREFERENCES
   \<and> sorted (map FechaHora (filterDuplicateRecords gapPunches DEFAULT_PREFERENCES))
   \<and> length (filterDuplicateRecords gapPunches DEFAULT_PREFERENCES) \<le> 4
   \<and> filterKeeping (moreThanWholeMinutes (duplicateThresholdMinutes DEFAULT_PREFERENCES))
       gapPunches =
       [punch ''Ana'' (mkTime 4 8 0 0) In None,
        punch ''Ana'' (mkTime 4 8 12 0) In None,
        punch ''Ana'' (mkTime 4 8 13 0) Out None]
   \<and> moreThanWholeMinutes 5 (mkTime 4 8 0 0) (mkTime 4 8 5 59) = False
   \<and> moreThanWholeMinutes 5 (mkTime 4 8 0 0) (mkTime 4 8 6 0) = True"
proof -
  note t = filterDuplicateRecords_properties [where x = gapPunches
      and preferences = DEFAULT_PREFERENCES]
  have l: "length gapPunches = 4"
    by (simp add: gapPunches_def)
  have a: "filterDuplicateRecords (filterDuplicateRecords gapPunches DEFAULT_PREFERENCES)
             DEFAULT_PREFERENCES
           = filterDuplicateRecords gapPunches DEFAULT_PREFERENCES"
    using t by blast
  have b: "sorted (map FechaHora (filterDuplicateRecords gapPunches DEFAULT_PREFERENCES))"
    using t by blast
  have "length (filterDuplicateRecords gapPunches DEFAULT_PREFERENCES) \<le> length gapPunches"
    using t by blast
  then have c: "length (filterDuplicateRecords gapPunches DEFAULT_PREFERENCES) \<le> 4"
    unfolding l .
  have d: "filterDuplicateRecords gapPunches DEFAULT_PREFERENCES
             = filterKeeping (moreThanWholeMinutes (duplicateThresholdMinutes DEFAULT_PREFERENCES))
                 gapPunches"
    using t by blast
  have e: "filterKeeping (moreThanWholeMinutes (duplicateThresholdMinutes DEFAULT_PREFERENCES))
       gapPunches =
     [punch ''Ana'' (mkTime 4 8 0 0) In None,
      punch ''Ana'' (mkTime 4 8 12 0) In None,
      punch ''Ana'' (mkTime 4 8 13 0) Out None]"
    by (rule trans [OF d [symmetric] gapPunches_filtered])
  have o: "mkTime 4 8 0 0 \<le> mkTime 4 8 5 59" "mkTime 4 8 0 0 \<le> mkTime 4 8 6 0"
    by (simp_all add: mkTime_def)
  have f: "moreThanWholeMinutes 5 (mkTime 4 8 0 0) (mkTime 4 8 5 59) = False"
    using filterDuplicateRecords_properties [where earlier = "mkTime 4 8 0 0"
        and later = "mkTime 4 8 5 59" and window = 5] o
    by (simp add: mkTime_def)
  have g: "moreThanWholeMinutes 5 (mkTime 4 8 0 0) (mkTime 4 8 6 0) = True"
    using filterDuplicateRecords_properties [where earlier = "mkTime 4 8 0 0"
        and later = "mkTime 4 8 6 0" and window = 5] o
    by (simp add: mkTime_def)
  show ?thesis
    by (intro conjI) (rule gapPunches_filtered a b c e f g)+
qed

text \<open>
  The claim as stated keeps a record that differs from the last kept one by more than the
  window. A punch 5 minutes and 59 seconds after a kept punch of the same kind and tag
  differs from it by more than the window of 5 minutes, and the filter of the source drops
  it.
\<close>

theorem filterDuplicateRecords_properties_counterexample:
  "mkTime 4 8 5 59 - mkTime 4 8 0 0 = 359
   \<and> duplicateThresholdMinutes DEFAULT_PREFERENCES * 60 = 300
   \<and> filterKeeping (moreThanMinutes (duplicateThresholdMinutes DEFAULT_PREFERENCES)) gapPunches =
       [punch ''Ana'' (mkTime 4 8 0 0) In None,
        punch ''Ana'' (mkTime 4 8 5 59) In None,
        punch ''Ana'' (mkTime 4 8 12 0) In None,
        punch ''Ana'' (mkTime 4 8 13 0) Out None]
   \<and> filterDuplicateRecords gapPunches DEFAULT_PREFERENCES =
       [punch ''Ana'' (mkTime 4 8 0 0) In None,
        punch ''Ana'' (mkTime 4 8 12 0) In None,
        punch ''Ana'' (mkTime 4 8 13 0) Out None]"
  by code_simp

subsection \<open>Lunch overrun and early arrival against the specification\<close>

lemma arrivalOf_clockMinute: "arrivalOf f = clockMinute (FechaHora (hd f))"
  by (simp add: arrivalOf_def minuteOfDay_clockMinute)

lemma departureOf_clockMinute: "departureOf f = clockMinute (FechaHora (last f))"
  by (simp add: departureOf_def minuteOfDay_clockMinute)


lemma breakDuration_firstBreakTime:
  "breakDuration f =
     (case firstBreakTime ''Out'' f of
        None \<Rightarrow> None
      | Some tOut \<Rightarrow>
          (case firstBreakTime ''In'' f of
             None \<Rightarrow> None
           | Some tIn \<Rightarrow> Some (wholeMinutes (tIn - tOut))))"
  by (simp add: breakDuration_def differenceInMinutes_wholeMinutes
      findBreak_firstBreakTime [symmetric] split: option.splits)


lemma workedMinutes_in_order:
  assumes "breakTagsInOrder f"
  shows "workedMinutes f = workedWholeMinutes f"
  using assms
  by (auto simp add: workedMinutes_def workedWholeMinutes_def breakDuration_firstBreakTime
      breakTagsInOrder_def firstBreakSeconds_def differenceInMinutes_wholeMinutes
      wholeMinutes_def split: option.splits)




text \<open>
  Claim C4, as amended. For a day whose break records are in order: the overtime is added
  only when the day has punches, is not short-circuited as a Saturday, and the worked
  minutes (the whole minutes from first to last punch, minus the whole minutes of the first
  break, from the first Break-Out to the first Break-In) are at least 480. It then holds the early-arrival credit, which is 1 for an
  arrival up to 07:05, 0.5 up to 07:30 and else 0, and only for the regular schedule with an
  arrival before the scheduled start; any other schedule gets no early-arrival credit.
  (Nothing is stated about a day on which a Break-In record precedes the first Break-Out.)
\<close>

theorem early_arrival_overtime:
  assumes "f = filterDuplicateRecords rs p" and "breakTagsInOrder f"
  shows "overtimeHours (analyzeDayRecords rs s p) =
     (if f \<noteq> [] \<and> getDay (FechaHora (hd f)) \<noteq> 6 \<and> workedWholeMinutes f \<ge> 480 then
        (if oid s = oid (regularSchedule p) \<and> clockMinute (FechaHora (hd f)) < startTime s
         then (if clockMinute (FechaHora (hd f)) \<le> 7 * 60 + 5 then 1
               else if clockMinute (FechaHora (hd f)) \<le> 7 * 60 + 30 then 1 / 2 else 0)
         else 0)
        + eveningCredit s p (clockMinute (FechaHora (last f)))
      else 0)"
proof (cases "f = []")
  case True
  then show ?thesis using assms analyzeDayRecords_empty [of rs p s] by simp
next
  case False
  show ?thesis
  proof (cases "getDay (FechaHora (hd f)) = 6")
    case True
    then show ?thesis
      using False assms by (simp add: analyzeDayRecords_def Let_def)
  next
    case sat: False
    from analyzeDayRecords_closed_form [OF assms(1) False sat]
    show ?thesis
      using False sat workedMinutes_in_order [OF assms(2)]
      by (simp add: earlyArrivalCredit_def arrivalOf_clockMinute departureOf_clockMinute)
  qed
qed

theorem early_arrival_overtime_witness:
  "overtimeHours (analyzeDayRecords shortDayPunches (regularSchedule DEFAULT_PREFERENCES)
       DEFAULT_PREFERENCES) = 0
   \<and> overtimeHours (analyzeDayRecords fullDayPunches (regularSchedule DEFAULT_PREFERENCES)
       DEFAULT_PREFERENCES) = 3 / 2
   \<and> overtimeHours (analyzeDayRecords fullDayPunches (earlySchedule DEFAULT_PREFERENCES)
       DEFAULT_PREFERENCES) = 1"
proof -
  let ?p = DEFAULT_PREFERENCES
  let ?f = "filterDuplicateRecords fullDayPunches DEFAULT_PREFERENCES"
  let ?g = "filterDuplicateRecords shortDayPunches DEFAULT_PREFERENCES"
  have o: "breakTagsInOrder ?f" "breakTagsInOrder ?g" by code_simp+
  have f: "?f \<noteq> [] \<and> getDay (FechaHora (hd ?f)) \<noteq> 6 \<and> workedWholeMinutes ?f = 572"
    by code_simp
  have g: "workedWholeMinutes ?g = 460" by code_simp
  have a: "clockMinute (FechaHora (hd ?f)) = 418" by code_simp
  have d: "clockMinute (FechaHora (last ?f)) = 1050" by code_simp
  have r: "oid (regularSchedule ?p) = 0 \<and> startTime (regularSchedule ?p) = 480
           \<and> endTime (regularSchedule ?p) = 1020"
    by (simp add: DEFAULT_PREFERENCES_def)
  have e: "oid (earlySchedule ?p) = 1 \<and> startTime (earlySchedule ?p) = 420
           \<and> endTime (earlySchedule ?p) = 960"
    by (simp add: DEFAULT_PREFERENCES_def)
  have t: "fullHour (overtimeThresholds ?p) = 55 \<and> halfHour (overtimeThresholds ?p) = 25"
    by (simp add: DEFAULT_PREFERENCES_def)
  have "overtimeHours (analyzeDayRecords shortDayPunches (regularSchedule ?p) ?p) = 0"
    using early_arrival_overtime [where rs = shortDayPunches and p = ?p
        and s = "regularSchedule ?p", OF refl o(2)] g
    by simp
  moreover
  have "overtimeHours (analyzeDayRecords fullDayPunches (regularSchedule ?p) ?p) = 3 / 2"
    using early_arrival_overtime [where rs = fullDayPunches and p = ?p
        and s = "regularSchedule ?p", OF refl o(1)]
      f a d r t
    by (simp add: eveningCredit_def)
  moreover
  have "overtimeHours (analyzeDayRecords fullDayPunches (earlySchedule ?p) ?p) = 1"
    using early_arrival_overtime [where rs = fullDayPunches and p = ?p
        and s = "earlySchedule ?p", OF refl o(1)]
      f a d r e t
    by (simp add: eveningCredit_def)
  ultimately show ?thesis by blast
qed

text \<open>
  The claim as stated gates the credit on the time worked, last punch minus first punch
  minus any matched break. With a break of 30 minutes and 59 seconds in a day of 510
  minutes the time worked is 28741 seconds, below 480 minutes (28800 seconds), and the
  source, which counts 510 - 30 whole minutes, adds the credit. With breaks of 15 and of 60
  minutes in a day of 545 minutes the time worked is 470 minutes, and the source, which
  subtracts the first break only, adds the credit. With a Break-In an hour before the
  Break-Out in a day of 450 minutes the source subtracts minus 60 minutes, reaches 510 and
  adds the credit as well.
\<close>

theorem early_arrival_overtime_counterexample:
  "workedSeconds (filterDuplicateRecords truncatedBreakPunches DEFAULT_PREFERENCES) = 28741
   \<and> overtimeHours (analyzeDayRecords truncatedBreakPunches
         (regularSchedule DEFAULT_PREFERENCES) DEFAULT_PREFERENCES) = 1
   \<and> workedSeconds (filterDuplicateRecords twoBreakPunches DEFAULT_PREFERENCES) = 28200
   \<and> overtimeHours (analyzeDayRecords twoBreakPunches
         (regularSchedule DEFAULT_PREFERENCES) DEFAULT_PREFERENCES) = 1
   \<and> workedSeconds (filterDuplicateRecords swappedBreakPunches DEFAULT_PREFERENCES) = 27000
   \<and> overtimeHours (analyzeDayRecords swappedBreakPunches
         (regularSchedule DEFAULT_PREFERENCES) DEFAULT_PREFERENCES) = 1
   \<and> (480 :: int) * 60 = 28800"
  by code_simp

subsection \<open>Schedule classifier\<close>

lemma getDay_range: "0 \<le> getDay t \<and> getDay t \<le> 6"
  by (simp add: getDay_def)

lemma weekday_iff: "(\<not> isWeekend t) = (1 \<le> getDay t \<and> getDay t \<le> 5)"
  using getDay_range [of t] by (auto simp add: isWeekend_def)

lemma entryTimes_weekdayMinutes: "entryTimes rs = weekdayMinutes In rs"
  by (induction rs) (auto simp add: entryTimes_def weekday_iff minuteOfDay_clockMinute [symmetric]
      minuteOfDay_def)

lemma departureTimes_weekdayMinutes: "departureTimes rs = weekdayMinutes Out rs"
  by (induction rs) (auto simp add: departureTimes_def weekday_iff
      minuteOfDay_clockMinute [symmetric] minuteOfDay_def)

lemma closerTo_average: "closerTo (average xs) a b = closerMean xs a b"
  by (simp add: closerTo_def average_def closerMean_def meanOf_def foldl_plus_sum_list)

lemma detectSchedule_classifiedEarly:
  "detectSchedule rs p = (if classifiedEarly rs p then earlySchedule p else regularSchedule p)"
  by (simp add: detectSchedule_def Let_def closerTo_average classifiedEarly_def
      entryTimes_weekdayMinutes departureTimes_weekdayMinutes)

text \<open>
  Claim C8. The classifier returns the early schedule when the mean minute of the day of
  the weekday In punches is strictly closer to the early start than to the regular start and
  the mean of the weekday Out punches is strictly closer to the early end than to the
  regular end, and the regular schedule in every other case; when the two schedules are
  different objects it returns the early one exactly in that case. Without weekday In
  punches or without weekday Out punches (a NaN mean) it returns the regular schedule.
\<close>

theorem detectSchedule_rule:
  "detectSchedule rs p = (if classifiedEarly rs p then earlySchedule p else regularSchedule p)
   \<and> (oid (earlySchedule p) \<noteq> oid (regularSchedule p) \<longrightarrow>
        (detectSchedule rs p = earlySchedule p \<longleftrightarrow> classifiedEarly rs p))
   \<and> (weekdayMinutes In rs = [] \<or> weekdayMinutes Out rs = [] \<longrightarrow>
        detectSchedule rs p = regularSchedule p)"
proof (intro conjI impI)
  show c: "detectSchedule rs p
             = (if classifiedEarly rs p then earlySchedule p else regularSchedule p)"
    by (rule detectSchedule_classifiedEarly)
  {
    assume "oid (earlySchedule p) \<noteq> oid (regularSchedule p)"
    then have "earlySchedule p \<noteq> regularSchedule p" by auto
    then show "detectSchedule rs p = earlySchedule p \<longleftrightarrow> classifiedEarly rs p"
      using c by auto
  }
  {
    assume "weekdayMinutes In rs = [] \<or> weekdayMinutes Out rs = []"
    then have "\<not> classifiedEarly rs p"
      by (auto simp add: classifiedEarly_def closerMean_def)
    then show "detectSchedule rs p = regularSchedule p" using c by simp
  }
qed

theorem detectSchedule_rule_witness:
  "weekdayMinutes In mixedWeekPunches = [422, 418]
   \<and> weekdayMinutes Out mixedWeekPunches = [961, 970]
   \<and> meanOf (weekdayMinutes In mixedWeekPunches) = 420
   \<and> detectSchedule mixedWeekPunches DEFAULT_PREFERENCES = earlySchedule DEFAULT_PREFERENCES
   \<and> weekdayMinutes Out (arrivalAt 0) = []
   \<and> detectSchedule (arrivalAt 0) DEFAULT_PREFERENCES = regularSchedule DEFAULT_PREFERENCES
   \<and> weekdayMinutes In saturdayPunches = []
   \<and> detectSchedule saturdayPunches DEFAULT_PREFERENCES = regularSchedule DEFAULT_PREFERENCES"
proof -
  note t = detectSchedule_rule [where rs = mixedWeekPunches and p = DEFAULT_PREFERENCES]
  note u = detectSchedule_rule [where rs = "arrivalAt 0" and p = DEFAULT_PREFERENCES]
  note v = detectSchedule_rule [where rs = saturdayPunches and p = DEFAULT_PREFERENCES]
  have o: "oid (earlySchedule DEFAULT_PREFERENCES) \<noteq> oid (regularSchedule DEFAULT_PREFERENCES)"
    by (simp add: DEFAULT_PREFERENCES_def)
  have i: "weekdayMinutes In mixedWeekPunches = [422, 418]" by code_simp
  have j: "weekdayMinutes Out mixedWeekPunches = [961, 970]" by code_simp
  have m: "meanOf (weekdayMinutes In mixedWeekPunches) = 420" by code_simp
  have e: "classifiedEarly mixedWeekPunches DEFAULT_PREFERENCES" by code_simp
  have d: "weekdayMinutes Out (arrivalAt 0) = []" by code_simp
  have w: "weekdayMinutes In saturdayPunches = []" by code_simp
  from t o e have a: "detectSchedule mixedWeekPunches DEFAULT_PREFERENCES
      = earlySchedule DEFAULT_PREFERENCES"
    by blast
  from u d have b: "detectSchedule (arrivalAt 0) DEFAULT_PREFERENCES
      = regularSchedule DEFAULT_PREFERENCES"
    by blast
  from v w have c: "detectSchedule saturdayPunches DEFAULT_PREFERENCES
      = regularSchedule DEFAULT_PREFERENCES"
    by blast
  from i j m a d b w c show ?thesis by blast
qed

subsection \<open>Rounding of the totals\<close>

text \<open>
  The rounding to binary64 on familiar values: one tenth, the sum of one tenth and two
  tenths (0.30000000000000004), and 242 / 60 + 247 / 60 + 246 / 60, which is 12.25 exactly
  and 12.249999999999998 in floating point.
\<close>

lemma toDouble_examples:
  "toDouble (1 / 10) = 3602879701896397 / 2 ^ 55"
  "toDouble (toDouble (1 / 10) + toDouble (2 / 10)) = 5404319552844596 / 2 ^ 54"
  "toDouble (toDouble (toDouble (242 / 60) + toDouble (247 / 60)) + toDouble (246 / 60))
     = 6896136929411071 / 2 ^ 49"
  "toDouble (9 / 2) = 9 / 2"
  by code_simp+

lemma bitLength_le: "n < 2 ^ k \<Longrightarrow> bitLength n \<le> k"
proof (induction k arbitrary: n)
  case 0
  then show ?case by (simp add: bitLength.simps)
next
  case (Suc k)
  show ?case
  proof (cases "n = 0")
    case True
    then show ?thesis by (simp add: bitLength.simps)
  next
    case False
    from Suc.prems have "n div 2 < 2 ^ k" by simp
    from Suc.IH [OF this] False show ?thesis
      by (subst bitLength.simps) simp
  qed
qed

lemma floorLog2_le_51:
  assumes "0 < x" and "x < 2 ^ 52"
  shows "floorLog2 x \<le> 51"
proof (cases "1 \<le> x")
  case True
  have "\<lfloor>x\<rfloor> < 2 ^ 52"
    using assms(2) by (simp add: floor_less_iff)
  moreover have "0 \<le> \<lfloor>x\<rfloor>" using True by simp
  ultimately have "nat \<lfloor>x\<rfloor> < 2 ^ 52"
    by (simp add: nat_less_iff)
  from bitLength_le [OF this] True show ?thesis
    by (simp add: floorLog2_def)
next
  case False
  then show ?thesis by (simp add: floorLog2_def)
qed

lemma roundHalfEven_of_int: "roundHalfEven (of_int m) = m"
  by (simp add: roundHalfEven_def Let_def)

lemma toDouble_half_exact:
  assumes "\<bar>of_int k / 2 :: rat\<bar> < 2 ^ 52"
  shows "toDouble (of_int k / 2) = of_int k / 2"
proof (cases "k = 0")
  case True
  then show ?thesis by (simp add: toDouble_def)
next
  case False
  let ?x = "of_int k / 2 :: rat"
  define e where "e = floorLog2 \<bar>?x\<bar>"
  have pos: "0 < \<bar>?x\<bar>" using False by simp
  have e51: "e \<le> 51" unfolding e_def by (rule floorLog2_le_51 [OF pos assms])
  define m where "m = nat (51 - e)"
  have em: "e - 52 = - int (Suc m)" using e51 by (simp add: m_def)
  have u: "pow2 (e - 52) = 1 / 2 ^ Suc m"
    unfolding em by (simp add: pow2_def nat_add_distrib)
  have q: "?x / (1 / 2 ^ Suc m) = of_int (k * 2 ^ m)"
    by simp
  have "toDouble ?x = of_int (roundHalfEven (?x / pow2 (e - 52))) * pow2 (e - 52)"
    using False by (simp add: toDouble_def Let_def e_def)
  also have "\<dots> = of_int (roundHalfEven (?x / (1 / 2 ^ Suc m))) * (1 / 2 ^ Suc m)"
    by (simp only: u)
  also have "\<dots> = of_int (roundHalfEven (of_int (k * 2 ^ m))) * (1 / 2 ^ Suc m)"
    by (simp only: q)
  also have "\<dots> = of_int (k * 2 ^ m) * (1 / 2 ^ Suc m)"
    by (simp only: roundHalfEven_of_int)
  also have "\<dots> = ?x" by simp
  finally show ?thesis .
qed

lemma roundToHalf_half: "\<exists>k::int. roundToHalf x = of_int k / 2"
  by (auto simp add: roundToHalf_def)

lemma roundToHalf_nearest: "x - 1 / 4 < roundToHalf x \<and> roundToHalf x \<le> x + 1 / 4"
proof -
  let ?k = "\<lfloor>x * 2 + 1 / 2\<rfloor>"
  have "of_int ?k \<le> x * 2 + 1 / 2" by (rule of_int_floor_le)
  moreover have "x * 2 + 1 / 2 < of_int ?k + 1" by linarith
  ultimately show ?thesis
    by (simp add: roundToHalf_def mathRound_def field_simps)
qed

lemma set_objectEntries: "set (objectEntries entries) = set entries"
  by (auto simp add: objectEntries_def)

text \<open>
  Claim C9. In every result of the aggregation, overtimeHours and saturdayHours are the
  accumulated totals of the employee, as the floating-point sums give them, rounded to the
  nearest half (the floor of the doubled value plus one half, halved: within a quarter of
  the total, a tie going up), hence multiples of 0.5; totalHours is the floating-point sum
  of the two rounded values, which is their exact sum below \<open>2^52\<close>; lateHours is the
  accumulated total itself.
\<close>

theorem rounding_of_totals:
  assumes "r \<in> set (analyzeAttendance records startDate endDate p)"
  shows "\<exists>userRecords tot.
           (name r, userRecords) \<in> set (groupByName records)
         \<and> tot = employeeTotals userRecords startDate endDate p
         \<and> periodOvertimeHours r = of_int \<lfloor>totalOvertimeHours tot * 2 + 1 / 2\<rfloor> / 2
         \<and> saturdayHours r = of_int \<lfloor>totalSaturdayHours tot * 2 + 1 / 2\<rfloor> / 2
         \<and> totalOvertimeHours tot - 1 / 4 < periodOvertimeHours r
         \<and> periodOvertimeHours r \<le> totalOvertimeHours tot + 1 / 4
         \<and> totalSaturdayHours tot - 1 / 4 < saturdayHours r
         \<and> saturdayHours r \<le> totalSaturdayHours tot + 1 / 4
         \<and> (\<exists>k::int. periodOvertimeHours r = of_int k / 2)
         \<and> (\<exists>k::int. saturdayHours r = of_int k / 2)
         \<and> totalHours r = toDouble (periodOvertimeHours r + saturdayHours r)
         \<and> (\<bar>periodOvertimeHours r + saturdayHours r\<bar> < 2 ^ 52 \<longrightarrow>
              totalHours r = periodOvertimeHours r + saturdayHours r)
         \<and> periodLateHours r = totalLateHours tot"
proof -
  from assms obtain entry where e: "entry \<in> set (groupByName records)"
    and r: "r = analyzeEmployee (getCompanyWorkdays records startDate endDate)
                  startDate endDate p entry"
    by (auto simp add: analyzeAttendance_def set_objectEntries)
  let ?tot = "employeeTotals (snd entry) startDate endDate p"
  have n: "name r = fst entry" using r by (simp add: analyzeEmployee_def Let_def)
  have o: "periodOvertimeHours r = roundToHalf (totalOvertimeHours ?tot)"
    using r by (simp add: analyzeEmployee_def Let_def)
  have s: "saturdayHours r = roundToHalf (totalSaturdayHours ?tot)"
    using r by (simp add: analyzeEmployee_def Let_def)
  have t: "totalHours r = toDouble (periodOvertimeHours r + saturdayHours r)"
    using r by (simp add: analyzeEmployee_def Let_def)
  have l: "periodLateHours r = totalLateHours ?tot"
    using r by (simp add: analyzeEmployee_def Let_def)
  have m: "(name r, snd entry) \<in> set (groupByName records)" using e n by simp
  obtain ko ks :: int where ko: "periodOvertimeHours r = of_int ko / 2"
    and ks: "saturdayHours r = of_int ks / 2"
    using o s roundToHalf_half by metis
  have x: "\<bar>periodOvertimeHours r + saturdayHours r\<bar> < 2 ^ 52 \<longrightarrow>
              totalHours r = periodOvertimeHours r + saturdayHours r"
  proof
    assume b: "\<bar>periodOvertimeHours r + saturdayHours r\<bar> < 2 ^ 52"
    have h: "periodOvertimeHours r + saturdayHours r = of_int (ko + ks) / 2"
      by (simp add: ko ks add_divide_distrib)
    from b have "\<bar>of_int (ko + ks) / 2 :: rat\<bar> < 2 ^ 52" unfolding h .
    from toDouble_half_exact [OF this] show "totalHours r = periodOvertimeHours r + saturdayHours r"
      unfolding t h .
  qed
  show ?thesis
  proof (intro exI conjI)
    show "(name r, snd entry) \<in> set (groupByName records)" by (rule m)
    show "?tot = employeeTotals (snd entry) startDate endDate p" by (rule refl)
    show "periodOvertimeHours r = of_int \<lfloor>totalOvertimeHours ?tot * 2 + 1 / 2\<rfloor> / 2"
      using o by (simp add: roundToHalf_def mathRound_def)
    show "saturdayHours r = of_int \<lfloor>totalSaturdayHours ?tot * 2 + 1 / 2\<rfloor> / 2"
      using s by (simp add: roundToHalf_def mathRound_def)
    show "totalOvertimeHours ?tot - 1 / 4 < periodOvertimeHours r"
      and "periodOvertimeHours r \<le> totalOvertimeHours ?tot + 1 / 4"
      using roundToHalf_nearest [of "totalOvertimeHours ?tot"] o by simp_all
    show "totalSaturdayHours ?tot - 1 / 4 < saturdayHours r"
      and "saturdayHours r \<le> totalSaturdayHours ?tot + 1 / 4"
      using roundToHalf_nearest [of "totalSaturdayHours ?tot"] s by simp_all
    show "periodOvertimeHours r = of_int ko / 2" by (rule ko)
    show "saturdayHours r = of_int ks / 2" by (rule ks)
    show "totalHours r = toDouble (periodOvertimeHours r + saturdayHours r)" by (rule t)
    show "\<bar>periodOvertimeHours r + saturdayHours r\<bar> < 2 ^ 52 \<longrightarrow>
              totalHours r = periodOvertimeHours r + saturdayHours r" by (rule x)
    show "periodLateHours r = totalLateHours ?tot" by (rule l)
  qed
qed

theorem rounding_of_totals_witness:
  "totalSaturdayHours (employeeTotals saturdayShifts (mkTime 0 0 0 0) (mkTime 21 0 0 0)
       DEFAULT_PREFERENCES) = 6896136929411071 / 562949953421312
   \<and> saturdayHours (hd (analyzeAttendance saturdayShifts (mkTime 0 0 0 0) (mkTime 21 0 0 0)
       DEFAULT_PREFERENCES)) = 12
   \<and> periodOvertimeHours (hd (analyzeAttendance saturdayShifts (mkTime 0 0 0 0)
       (mkTime 21 0 0 0) DEFAULT_PREFERENCES)) = 3 / 2
   \<and> totalHours (hd (analyzeAttendance saturdayShifts (mkTime 0 0 0 0) (mkTime 21 0 0 0)
       DEFAULT_PREFERENCES)) = 27 / 2
   \<and> (\<exists>k::int. saturdayHours (hd (analyzeAttendance saturdayShifts (mkTime 0 0 0 0)
         (mkTime 21 0 0 0) DEFAULT_PREFERENCES)) = of_int k / 2)"
proof -
  let ?R = "analyzeAttendance saturdayShifts (mkTime 0 0 0 0) (mkTime 21 0 0 0)
      DEFAULT_PREFERENCES"
  have "length ?R = 1" by code_simp
  then have "?R \<noteq> []" by auto
  then have h: "hd ?R \<in> set ?R" by (rule hd_in_set)
  from rounding_of_totals [OF h]
  have a: "\<bar>periodOvertimeHours (hd ?R) + saturdayHours (hd ?R)\<bar> < 2 ^ 52 \<longrightarrow>
       totalHours (hd ?R) = periodOvertimeHours (hd ?R) + saturdayHours (hd ?R)"
    and b: "\<exists>k::int. saturdayHours (hd ?R) = of_int k / 2"
    by blast+
  have c: "totalSaturdayHours (employeeTotals saturdayShifts (mkTime 0 0 0 0) (mkTime 21 0 0 0)
       DEFAULT_PREFERENCES) = 6896136929411071 / 562949953421312"
    by code_simp
  have d: "saturdayHours (hd ?R) = 12" by code_simp
  have e: "periodOvertimeHours (hd ?R) = 3 / 2" by code_simp
  have "totalHours (hd ?R) = 27 / 2" using a d e by simp
  with b c d e show ?thesis by blast
qed

end
